theory Spec2Isabelle
  imports Main "HOL-Library.Word"
begin

unbundle bit_operations_syntax

section \<open>Common data\<close>

text \<open>
  Python exceptions are values. The constructors carry the message of the \<open>raise\<close>
  statement where the source gives one; \<open>LibraryError\<close> stands for any exception that
  comes out of a call into a library outside this repository.
\<close>

datatype error =
    ValueError string
  | RuntimeError string
  | KeyError string
  | IndexError
  | ZeroDivisionError
  | UnboundLocalError string
  | LibraryError string

type_synonym bytes = string

section \<open>Class-sensitive weight loading (custom\_maskrcnn\_detector.py)\<close>

subsection \<open>Tensors\<close>

text \<open>
  The hook takes \<open>len\<close> of a parameter tensor and slices it along dimension 0, so a
  parameter is a tensor of at least one dimension. It is given by its trailing shape,
  the sizes of the dimensions after the first, and the list of its rows: the row of an
  index of dimension 0 is the row-major list of the elements at that index, one element
  for a bias (trailing shape \<open>[]\<close>) and \<open>k\<close> elements for a weight matrix with \<open>k\<close>
  columns (trailing shape \<open>[k]\<close>). The elements are values of type \<open>'a\<close>: the tensors
  have one dtype.
\<close>

record 'a tensor =
  trailing :: "nat list"
  content :: "'a list list"

text \<open>The size of dimension 0, \<open>t.shape[0]\<close>.\<close>

definition tensor_len :: "'a tensor \<Rightarrow> nat" where
  "tensor_len t = length (content t)"

text \<open>Every row of a tensor has as many elements as its trailing shape says.\<close>

definition well_formed :: "'a tensor \<Rightarrow> bool" where
  "well_formed t \<longleftrightarrow> list_all (\<lambda>r. length r = prod_list (trailing t)) (content t)"

text \<open>
  \<open>rows t a b\<close> is the basic slice \<open>t[a:b]\<close> for \<open>0 \<le> a \<le> b\<close>: the bounds are clamped to
  the number of rows.
\<close>

definition rows :: "'a tensor \<Rightarrow> nat \<Rightarrow> nat \<Rightarrow> 'a tensor" where
  "rows t a b = t\<lparr>content := take (b - a) (drop a (content t))\<rparr>"

text \<open>
  Broadcasting. A source of shape \<open>s\<close> can be expanded to the shape \<open>v\<close> when it has at
  most as many dimensions and, with the shapes aligned at their last dimensions, every
  size of the source is the size of the target or 1. \<open>expand v s d\<close> is the row-major
  data of the expansion to \<open>v\<close> of the tensor with shape \<open>s\<close> and row-major data \<open>d\<close>;
  \<open>chunks m k d\<close> cuts \<open>d\<close> into \<open>k\<close> consecutive pieces of \<open>m\<close> elements.
\<close>

definition expandable :: "nat list \<Rightarrow> nat list \<Rightarrow> bool" where
  "expandable v s \<longleftrightarrow>
     length s \<le> length v \<and>
     list_all2 (\<lambda>sd vd. sd = vd \<or> sd = 1) s (drop (length v - length s) v)"

fun chunks :: "nat \<Rightarrow> nat \<Rightarrow> 'a list \<Rightarrow> 'a list list" where
  "chunks m 0 d = []"
| "chunks m (Suc k) d = take m d # chunks m k (drop m d)"

fun expand :: "nat list \<Rightarrow> nat list \<Rightarrow> 'a list \<Rightarrow> 'a list" where
  "expand [] s d = d"
| "expand (v # vs) s d =
     (if length s \<le> length vs then concat (replicate v (expand vs s d))
      else if hd s = v
      then concat (map (expand vs (tl s)) (chunks (prod_list (tl s)) v d))
      else concat (replicate v (expand vs (tl s) d)))"

text \<open>
  \<open>slice_copy t a b src\<close> is \<open>t[a:b].copy_(src)\<close>: the slice is a view, so the rows of
  \<open>t\<close> are overwritten in place. \<open>copy_\<close> expands the source to the shape of the view
  and raises \<open>RuntimeError\<close> when the source cannot be expanded to it (torch's message
  names the two shapes; the model keeps one message).
\<close>

definition slice_copy :: "'a tensor \<Rightarrow> nat \<Rightarrow> nat \<Rightarrow> 'a tensor \<Rightarrow> error + 'a tensor" where
  "slice_copy t a b src =
     (let n = tensor_len (rows t a b);
          view_shape = n # trailing t;
          src_shape = tensor_len src # trailing src
      in
      if expandable view_shape src_shape then
        Inr (t\<lparr>content :=
               take a (content t) @
               chunks (prod_list (trailing t)) n
                 (expand view_shape src_shape (concat (content src))) @
               drop (a + n) (content t)\<rparr>)
      else Inl (RuntimeError ''The size of tensor a must match the size of tensor b''))"

subsection \<open>The pre-hook\<close>

text \<open>
  The loop \<open>for m, c in enumerate(model2chkpt)\<close> of lines 65 to 68; \<open>m\<close> is the running
  index of \<open>enumerate\<close>.
\<close>

fun copy_matched ::
  "nat \<Rightarrow> 'a tensor \<Rightarrow> 'a tensor \<Rightarrow> nat \<Rightarrow> int list \<Rightarrow> error + 'a tensor" where
  "copy_matched stride chkpt_param model_param m [] = Inr model_param"
| "copy_matched stride chkpt_param model_param m (c # cs) =
     (if c \<ge> 0 then
        (case slice_copy model_param (m * stride) ((m + 1) * stride)
                (rows chkpt_param (nat c * stride) ((nat c + 1) * stride)) of
           Inl e \<Rightarrow> Inl e
         | Inr model_param' \<Rightarrow> copy_matched stride chkpt_param model_param' (m + 1) cs)
      else copy_matched stride chkpt_param model_param (m + 1) cs)"

text \<open>
  Lines 63 to 72, the body of the loop over \<open>param_strides\<close> for one parameter:
  the clone of the model's parameter receives the matched rows and then, when it has
  more than \<open>len(model_classes * stride)\<close> rows, the background block.
\<close>

definition mix_weights ::
  "nat \<Rightarrow> 'c list \<Rightarrow> 'c list \<Rightarrow> int list \<Rightarrow> 'a tensor \<Rightarrow> 'a tensor \<Rightarrow> error + 'a tensor" where
  "mix_weights stride model_classes chkpt_classes model2chkpt model_param chkpt_param =
     (case copy_matched stride chkpt_param model_param 0 model2chkpt of
        Inl e \<Rightarrow> Inl e
      | Inr mixed \<Rightarrow>
          if tensor_len mixed > length model_classes * stride then
            (let c = length chkpt_classes; m = length model_classes in
             slice_copy mixed (m * stride) ((m + 1) * stride)
               (rows chkpt_param (c * stride) ((c + 1) * stride)))
          else Inr mixed)"

definition param_strides :: "(string \<times> nat) list" where
  "param_strides =
     [(''roi_head.bbox_head.fc_cls.weight'', 1),
      (''roi_head.bbox_head.fc_cls.bias'', 1),
      (''roi_head.bbox_head.fc_reg.weight'', 4),
      (''roi_head.bbox_head.fc_reg.bias'', 4)]"

type_synonym 'a state_dict = "string \<rightharpoonup> 'a tensor"

text \<open>
  The loop over \<open>param_strides.items()\<close>. \<open>chkpt_dict\<close> is mutated in place, so an
  exception leaves the entries replaced so far: the result is the dictionary together
  with the exception raised, if any.
\<close>

fun mix_params ::
  "'c list \<Rightarrow> 'c list \<Rightarrow> int list \<Rightarrow> 'a state_dict \<Rightarrow> string \<Rightarrow> (string \<times> nat) list \<Rightarrow>
   'a state_dict \<Rightarrow> 'a state_dict \<times> error option" where
  "mix_params model_classes chkpt_classes model2chkpt model_dict prefix [] chkpt_dict =
     (chkpt_dict, None)"
| "mix_params model_classes chkpt_classes model2chkpt model_dict prefix
     ((model_name, stride) # rest) chkpt_dict =
     (let chkpt_name = prefix @ model_name in
      case (model_dict model_name, chkpt_dict chkpt_name) of
        (Some model_param, Some chkpt_param) \<Rightarrow>
          (case mix_weights stride model_classes chkpt_classes model2chkpt
                  model_param chkpt_param of
             Inl e \<Rightarrow> (chkpt_dict, Some e)
           | Inr mixed \<Rightarrow>
               mix_params model_classes chkpt_classes model2chkpt model_dict prefix rest
                 (chkpt_dict(chkpt_name \<mapsto> mixed)))
      | _ \<Rightarrow>
          mix_params model_classes chkpt_classes model2chkpt model_dict prefix rest
            chkpt_dict)"

text \<open>
  \<open>CustomMaskRCNN.load_state_dict_pre_hook\<close>. \<open>model_dict\<close> is \<open>model.state_dict()\<close>.
  The function \<open>map_class_names\<close> is imported from \<open>otx.mpa.modules.utils.task_adapt\<close>,
  which is not among the sources at hand, so the hook takes it as the argument \<open>mcn\<close>.
\<close>

definition load_state_dict_pre_hook ::
  "('c list \<Rightarrow> 'c list \<Rightarrow> int list) \<Rightarrow> 'a state_dict \<Rightarrow> 'c list \<Rightarrow> 'c list \<Rightarrow>
   'a state_dict \<Rightarrow> string \<Rightarrow> 'a state_dict \<times> error option" where
  "load_state_dict_pre_hook mcn model_dict model_classes chkpt_classes chkpt_dict prefix =
     (let model2chkpt = mcn model_classes chkpt_classes in
      mix_params model_classes chkpt_classes model2chkpt model_dict prefix
        param_strides chkpt_dict)"

text \<open>
  Modelled from the spec: \<open>map_class_names\<close> of \<open>otx.mpa.modules.utils.task_adapt\<close> is
  missing from the sources. It matches every model class to the index of the checkpoint
  class of the same name, and to \<open>-1\<close> when the checkpoint has no such class. It is used
  for concrete evaluations only; the theorems hold for any \<open>mcn\<close>.
\<close>

fun index_of :: "'c \<Rightarrow> 'c list \<Rightarrow> nat" where
  "index_of x [] = 0"
| "index_of x (y # ys) = (if x = y then 0 else Suc (index_of x ys))"

definition map_class_names :: "'c list \<Rightarrow> 'c list \<Rightarrow> int list" where
  "map_class_names src_classes dst_classes =
     map (\<lambda>c. if c \<in> set dst_classes then int (index_of c dst_classes) else - 1) src_classes"

text \<open>The row block of class index \<open>i\<close>: rows \<open>[i * stride, (i + 1) * stride)\<close>.\<close>

definition block :: "nat \<Rightarrow> 'a tensor \<Rightarrow> nat \<Rightarrow> 'a tensor" where
  "block stride t i = rows t (i * stride) ((i + 1) * stride)"

text \<open>
  The shapes under which every copy of \<open>mix_weights\<close> is a copy of a full block into a
  full block of the same shape: the two parameters have the same trailing shape (and the
  rows of the checkpoint parameter have that shape), the checkpoint parameter has the
  block of every matched class, the model parameter has
  the blocks of all model classes and, when it has rows beyond them, a full background
  block, for which the checkpoint then has a block at index \<open>len(chkpt_classes)\<close>.
\<close>

definition full_blocks ::
  "nat \<Rightarrow> nat \<Rightarrow> nat \<Rightarrow> int list \<Rightarrow> 'a tensor \<Rightarrow> 'a tensor \<Rightarrow> bool" where
  "full_blocks stride n_model n_chkpt model2chkpt model_param chkpt_param \<longleftrightarrow>
     trailing model_param = trailing chkpt_param \<and>
     well_formed chkpt_param \<and>
     length model2chkpt = n_model \<and>
     list_all (\<lambda>c. c \<ge> 0 \<longrightarrow> (nat c + 1) * stride \<le> tensor_len chkpt_param) model2chkpt \<and>
     n_model * stride \<le> tensor_len model_param \<and>
     (tensor_len model_param > n_model * stride \<longrightarrow>
        (n_model + 1) * stride \<le> tensor_len model_param \<and>
        (n_chkpt + 1) * stride \<le> tensor_len chkpt_param)"

text \<open>What the claim says of one rewritten parameter \<open>mixed\<close>.\<close>

definition remapped ::
  "nat \<Rightarrow> nat \<Rightarrow> nat \<Rightarrow> int list \<Rightarrow> 'a tensor \<Rightarrow> 'a tensor \<Rightarrow> 'a tensor \<Rightarrow> bool" where
  "remapped stride n_model n_chkpt model2chkpt model_param chkpt_param mixed \<longleftrightarrow>
     tensor_len mixed = tensor_len model_param \<and>
     trailing mixed = trailing model_param \<and>
     list_all (\<lambda>m. let c = model2chkpt ! m in
                 if c \<ge> 0 then block stride mixed m = block stride chkpt_param (nat c)
                 else block stride mixed m = block stride model_param m)
       [0..<n_model] \<and>
     (tensor_len model_param > n_model * stride \<longrightarrow>
        block stride mixed n_model = block stride chkpt_param n_chkpt)"
section \<open>The OpenVINO detection task (adapters/openvino/task.py)\<close>

subsection \<open>Values of the platform API and of the libraries\<close>

text \<open>
  task.py is glue between the platform API (\<open>otx.api\<close>) and the inference and
  compression libraries. An object that the task only hands from one library call to the
  next (an image or array, a label schema, a label, an annotation, an IR graph, a model
  adapter or wrapper, a parsed JSON value, a performance) is a value of the one type
  \<open>'obj\<close>. An object whose fields or entries task.py reads or writes is a record, and
  an enumeration is a datatype. A Python float is its 64-bit pattern and a float32 its
  32-bit pattern; \<open>bytes\<close> and \<open>str\<close> values are byte strings.

  Modelled from the spec: the declarations of the platform's entities and enumerations are
  missing from the sources. The records below have the fields and the enumerations the
  members that task.py names; \<open>CLASSIFICATION\<close> and \<open>SEGMENTATION\<close> stand for the
  task types that task.py does not name.
\<close>

type_synonym pyfloat = "64 word"
type_synonym float32 = "32 word"

datatype TaskType =
  CLASSIFICATION | SEGMENTATION | DETECTION | INSTANCE_SEGMENTATION | ROTATED_DETECTION

datatype OptimizationType = POT | NNCF

datatype ModelFormat = OPENVINO | BASE_FRAMEWORK | ONNX

datatype ModelOptimizationType = MO_NONE | MO_NNCF | MO_POT | MO_ONNX

datatype OptimizationMethod = FILTER_PRUNING | QUANTIZATION

datatype ModelPrecision = INT4 | INT8 | FP16 | FP32

datatype Subset = NONE | TRAINING | VALIDATION | TESTING | UNLABELED

datatype POTQuantizationPreset = PERFORMANCE | MIXED

text \<open>
  A zip archive is the list of its entries, name and data, in the order written.
\<close>

type_synonym zip_archive = "(string \<times> bytes) list"

record ModelEntity =
  model_adapters :: "string \<rightharpoonup> bytes"
  model_format :: ModelFormat
  optimization_type :: ModelOptimizationType
  optimization_methods :: "OptimizationMethod list"
  precision :: "ModelPrecision list"
  exportable_code :: "zip_archive option"

text \<open>
  Modelled from the spec: \<open>ModelEntity.get_data\<close> and \<open>ModelEntity.set_data\<close> are missing
  from the sources. The entity keeps its data by key; reading a key that was never set
  raises \<open>KeyError\<close>.
\<close>

definition get_data :: "ModelEntity \<Rightarrow> string \<Rightarrow> error + bytes" where
  "get_data m key =
     (case model_adapters m key of None \<Rightarrow> Inl (KeyError key) | Some d \<Rightarrow> Inr d)"

definition set_data :: "string \<Rightarrow> bytes \<Rightarrow> ModelEntity \<Rightarrow> ModelEntity" where
  "set_data key d m = m\<lparr>model_adapters := (model_adapters m)(key \<mapsto> d)\<rparr>"

record 'obj AnnotationSceneEntity =
  annotations :: "'obj list"

datatype 'obj metadata_value = TensorEntity string 'obj | ResultMediaEntity 'obj

record 'obj MetadataItemEntity =
  data :: "'obj metadata_value"
  metadata_model :: "ModelEntity option"

record 'obj DatasetItemEntity =
  numpy :: 'obj
  annotation_scene :: "'obj AnnotationSceneEntity"
  metadata :: "'obj MetadataItemEntity list"
  subset :: Subset

type_synonym 'obj DatasetEntity = "'obj DatasetItemEntity list"

text \<open>
  Modelled from the spec: the methods of \<open>DatasetEntity\<close> and \<open>DatasetItemEntity\<close> are
  missing from the sources. Indexing a dataset by an integer is Python's list indexing;
  \<open>get_subset\<close> keeps the items of one subset; \<open>append_metadata_item\<close> adds one
  metadata item at the end.
\<close>

definition dataset_getitem :: "'obj DatasetEntity \<Rightarrow> int \<Rightarrow> error + 'obj DatasetItemEntity" where
  "dataset_getitem dataset index =
     (let n = int (length dataset); j = (if index < 0 then n + index else index) in
      if 0 \<le> j \<and> j < n then Inr (dataset ! nat j) else Inl IndexError)"

definition get_subset :: "'obj DatasetEntity \<Rightarrow> Subset \<Rightarrow> 'obj DatasetEntity" where
  "get_subset dataset s = filter (\<lambda>item. subset item = s) dataset"

definition append_metadata_item ::
  "'obj metadata_value \<Rightarrow> ModelEntity option \<Rightarrow> 'obj DatasetItemEntity \<Rightarrow> 'obj DatasetItemEntity" where
  "append_metadata_item d m item =
     item\<lparr>metadata := metadata item @ [\<lparr>data = d, metadata_model = m\<rparr>]\<rparr>"

record 'obj ResultSetEntity =
  ground_truth_dataset :: "'obj DatasetEntity"
  prediction_dataset :: "'obj DatasetEntity"
  performance :: 'obj

subsection \<open>Hyper-parameters and configuration\<close>

text \<open>
  The entry \<open>type\<close> of a parameter group is an element of an enumeration of the
  configuration API until \<open>deploy\<close> replaces it by its \<open>str\<close>.
\<close>

datatype 'obj type_entry = ElementType 'obj | TypeStr string

record 'obj TilingParameters =
  tiling_type :: "'obj type_entry option"
  enable_tiling :: bool
  enable_tile_classifier :: bool
  tile_size :: int
  tile_overlap :: pyfloat
  tile_max_number :: int

record 'obj PostProcessing =
  postprocessing_confidence_threshold :: pyfloat
  postprocessing_rest :: 'obj

record POTParameters =
  stat_requests_number :: nat
  stat_subset_size :: nat
  preset :: POTQuantizationPreset

record 'obj DetectionConfig =
  postprocessing :: "'obj PostProcessing"
  pot_parameters :: POTParameters
  other_parameters :: 'obj

text \<open>The dictionary that \<open>load_config\<close> returns, read by attribute.\<close>

record 'obj config =
  tiling_parameters :: "'obj TilingParameters"
  other_groups :: 'obj

record 'obj TaskEnvironment =
  label_schema :: 'obj
  hyper_parameters :: "'obj DetectionConfig"
  get_labels :: "'obj list"

subsection \<open>Inferencers\<close>

datatype 'obj converter =
    DetectionToAnnotationConverter 'obj
  | MaskToAnnotationConverter 'obj
  | RotatedRectToAnnotationConverter 'obj

text \<open>The arguments that \<open>OpenVINOTileClassifierWrapper\<close> gives to \<open>Tiler\<close>.\<close>

record 'obj Tiler =
  tiler_tile_size :: int
  tiler_overlap :: pyfloat
  tiler_max_number :: int
  tiler_detector :: 'obj
  tiler_classifier :: "'obj option"
  tiler_mode :: string
  tiler_segm :: bool

datatype inferencer_class =
    OpenVINODetectionInferencer_class
  | OpenVINOMaskInferencer_class
  | OpenVINORotatedRectInferencer_class
  | OpenVINOTileClassifierWrapper_class

text \<open>
  An instance of \<open>BaseInferencerWithConverter\<close> or of one of its four subclasses:
  its class, the three attributes that \<open>BaseInferencerWithConverter.__init__\<close> sets,
  and the \<open>tiler\<close> that only the wrapper has.
\<close>

record 'obj BaseInferencerWithConverter =
  inferencer_class :: inferencer_class
  configuration :: "string \<rightharpoonup> 'obj"
  inferencer_model :: 'obj
  converter :: "'obj converter"
  tiler :: "'obj Tiler option"

subsection \<open>The task and the parameters of its methods\<close>

record 'obj OpenVINODetectionTask =
  task_environment :: "'obj TaskEnvironment"
  model :: "ModelEntity option"
  task_type :: TaskType
  confidence_threshold :: pyfloat
  config :: "'obj config"
  inferencer :: "'obj BaseInferencerWithConverter"

definition hparams :: "'obj OpenVINODetectionTask \<Rightarrow> 'obj DetectionConfig" where
  "hparams self = hyper_parameters (task_environment self)"

text \<open>
  A progress callback is called with a percentage; it returns, or it raises.
\<close>

type_synonym progress_callback = "int \<Rightarrow> error option"

definition default_progress_callback :: progress_callback where
  "default_progress_callback progress = None"

record InferenceParameters =
  is_evaluation :: bool
  infer_update_progress :: progress_callback
  infer_process_saliency_maps :: bool
  infer_explain_predicted_classes :: bool

record OptimizationParameters =
  update_progress :: progress_callback

text \<open>The dictionary \<open>parameters\<close> that \<open>deploy\<close> serialises into \<open>config.json\<close>.\<close>

record 'obj deploy_parameters =
  type_of_model :: string
  converter_type :: string
  model_parameters :: "string \<rightharpoonup> 'obj"
  deploy_tiling_parameters :: "'obj TilingParameters"

text \<open>The configuration of the engine and of the algorithm that \<open>optimize\<close> builds.\<close>

record engine_config =
  device :: string
  engine_stat_requests_number :: nat

record algorithm =
  algorithm_name :: string
  target_device :: string
  algorithm_preset :: string
  algorithm_stat_subset_size :: nat
  shuffle_data :: bool

record 'obj OTXOpenVinoDataLoader =
  loader_dataset :: "'obj DatasetEntity"
  loader_inferencer :: "'obj BaseInferencerWithConverter"

subsection \<open>The libraries\<close>

text \<open>
  Every function that task.py calls in a library outside the repository, or in a module
  of the repository that is not among the sources, is a field of the record \<open>externals\<close>;
  the definitions below take the record as their first argument \<open>ext\<close> and the theorems
  hold for every \<open>ext\<close>. A call that can fail returns \<open>Inl\<close> of the exception.
\<close>

record 'obj externals =
  \<comment> \<open>otx.api.configuration.helper.utils, json\<close>
  flatten_detection_config_groups :: "'obj DetectionConfig \<Rightarrow> error + 'obj config"
  json_loads :: "bytes \<Rightarrow> error + 'obj"
  flatten_config_values :: "'obj \<Rightarrow> error + 'obj"
  merge_a_into_b :: "'obj \<Rightarrow> 'obj config \<Rightarrow> error + 'obj config"
  json_dumps :: "'obj deploy_parameters \<Rightarrow> error + bytes"
  config_to_bytes :: "'obj DetectionConfig \<Rightarrow> error + bytes"
  \<comment> \<open>numpy\<close>
  to_float32 :: "pyfloat \<Rightarrow> float32"
  of_float32 :: "float32 \<Rightarrow> pyfloat"
  reshape_flat :: "'obj \<Rightarrow> 'obj"
  first_item :: "'obj \<Rightarrow> 'obj"
  shape0 :: "'obj \<Rightarrow> nat"
  progress_percent :: "nat \<Rightarrow> nat \<Rightarrow> int"
  \<comment> \<open>openvino.model_zoo.model_api, attr\<close>
  OpenvinoAdapter :: "bytes option \<Rightarrow> bytes option \<Rightarrow> string \<Rightarrow> nat \<Rightarrow> error + 'obj"
  attr_asdict :: "'obj PostProcessing \<Rightarrow> (string \<rightharpoonup> 'obj)"
  create_model :: "string \<Rightarrow> 'obj \<Rightarrow> (string \<rightharpoonup> 'obj) \<Rightarrow> error + 'obj"
  Model :: "'obj \<Rightarrow> error + 'obj"
  model_name :: "'obj \<Rightarrow> string"
  preprocess :: "'obj \<Rightarrow> 'obj \<Rightarrow> error + ('obj \<times> 'obj)"
  infer_sync :: "'obj \<Rightarrow> 'obj \<Rightarrow> error + (string \<rightharpoonup> 'obj)"
  postprocess :: "'obj \<Rightarrow> (string \<rightharpoonup> 'obj) \<Rightarrow> 'obj \<Rightarrow> error + 'obj"
  \<comment> \<open>otx.api: converters, tiler, dataset items, labels, metrics, serialization\<close>
  convert_to_annotation ::
    "'obj converter \<Rightarrow> 'obj \<Rightarrow> 'obj \<Rightarrow> error + 'obj AnnotationSceneEntity"
  detection2array :: "'obj \<Rightarrow> error + 'obj"
  original_shape :: "'obj \<Rightarrow> 'obj"
  tiler_predict ::
    "'obj Tiler \<Rightarrow> 'obj \<Rightarrow> string \<Rightarrow> error + ('obj \<times> 'obj option \<times> 'obj option)"
  validated_annotations :: "'obj DatasetItemEntity \<Rightarrow> 'obj list \<Rightarrow> 'obj list"
  annotation_get_labels :: "'obj \<Rightarrow> 'obj list"
  background_label :: 'obj
  saliency_media ::
    "'obj DatasetItemEntity \<Rightarrow> 'obj \<Rightarrow> ModelEntity option \<Rightarrow> 'obj list \<Rightarrow> 'obj list \<Rightarrow>
     bool \<Rightarrow> bool \<Rightarrow> error + 'obj list"
  compute_f_measure :: "'obj ResultSetEntity \<Rightarrow> error + 'obj"
  get_performance :: "'obj \<Rightarrow> 'obj"
  LabelSchemaMapper_forward :: "'obj \<Rightarrow> error + 'obj"
  label_schema_to_bytes :: "'obj \<Rightarrow> error + bytes"
  str_TaskType :: "TaskType \<Rightarrow> string"
  str_ElementType :: "'obj \<Rightarrow> string"
  \<comment> \<open>compression (POT)\<close>
  load_model :: "bytes \<Rightarrow> bytes \<Rightarrow> error + 'obj"
  get_nodes_by_type :: "'obj \<Rightarrow> string list \<Rightarrow> 'obj list"
  cpu_count :: nat
  IEEngine :: "engine_config \<Rightarrow> 'obj OTXOpenVinoDataLoader \<Rightarrow> error + 'obj"
  create_pipeline :: "algorithm list \<Rightarrow> 'obj \<Rightarrow> error + 'obj"
  pipeline_run :: "'obj \<Rightarrow> 'obj \<Rightarrow> error + 'obj"
  compress_model_weights :: "'obj \<Rightarrow> error + 'obj"
  save_model :: "'obj \<Rightarrow> error + (bytes \<times> bytes)"
  \<comment> \<open>the file system that \<open>deploy\<close> reads\<close>
  work_dir :: string
  model_wrappers_dir :: string
  os_walk :: "string \<Rightarrow> (string \<times> string list) list"
  read_file :: "string \<rightharpoonup> bytes"
  zip_arcname :: "string \<Rightarrow> string"

subsection \<open>float32 buffers\<close>

text \<open>
  \<open>np.array([x], dtype=np.float32).tobytes()\<close> is the four bytes of the float32, lowest
  byte first. \<open>np.frombuffer(b, dtype=np.float32)[0]\<close> needs a buffer whose size is a
  multiple of four, and one element in it.
\<close>

definition float32_tobytes :: "float32 \<Rightarrow> bytes" where
  "float32_tobytes w =
     [char_of (unat w), char_of (unat (drop_bit 8 w)),
      char_of (unat (drop_bit 16 w)), char_of (unat (drop_bit 24 w))]"

definition float32_frombuffer0 :: "bytes \<Rightarrow> error + float32" where
  "float32_frombuffer0 b =
     (if length b mod 4 \<noteq> 0
      then Inl (ValueError ''buffer size must be a multiple of element size'')
      else case b of
        b0 # b1 # b2 # b3 # _ \<Rightarrow>
          Inr (of_char b0 OR push_bit 8 (of_char b1) OR push_bit 16 (of_char b2)
               OR push_bit 24 (of_char b3))
      | _ \<Rightarrow> Inl IndexError)"

subsection \<open>Inferencer classes (lines 95 to 322)\<close>

definition pre_process ::
  "'obj externals \<Rightarrow> 'obj BaseInferencerWithConverter \<Rightarrow> 'obj \<Rightarrow> error + ('obj \<times> 'obj)" where
  "pre_process ext self img = preprocess ext (inferencer_model self) img"

text \<open>
  \<open>post_process\<close> is overridden by \<open>OpenVINODetectionInferencer\<close>, which converts the
  detections to an array first.
\<close>

definition post_process ::
  "'obj externals \<Rightarrow> 'obj BaseInferencerWithConverter \<Rightarrow> (string \<rightharpoonup> 'obj) \<Rightarrow> 'obj \<Rightarrow>
   error + 'obj AnnotationSceneEntity" where
  "post_process ext self prediction meta =
     (case postprocess ext (inferencer_model self) prediction meta of
        Inl e \<Rightarrow> Inl e
      | Inr detections \<Rightarrow>
          if inferencer_class self = OpenVINODetectionInferencer_class then
            (case detection2array ext detections of
               Inl e \<Rightarrow> Inl e
             | Inr detections' \<Rightarrow> convert_to_annotation ext (converter self) detections' meta)
          else convert_to_annotation ext (converter self) detections meta)"

definition forward ::
  "'obj externals \<Rightarrow> 'obj BaseInferencerWithConverter \<Rightarrow> 'obj \<Rightarrow> error + (string \<rightharpoonup> 'obj)" where
  "forward ext self img = infer_sync ext (inferencer_model self) img"

type_synonym 'obj features = "'obj option \<times> 'obj option"

text \<open>
  \<open>predict\<close>: the method of \<open>BaseInferencerWithConverter\<close> (lines 118 to 134), and its
  override in \<open>OpenVINOTileClassifierWrapper\<close> (lines 307 to 322), which hands the image
  to the tiler.
\<close>

definition predict ::
  "'obj externals \<Rightarrow> 'obj BaseInferencerWithConverter \<Rightarrow> 'obj \<Rightarrow> string \<Rightarrow>
   error + ('obj AnnotationSceneEntity \<times> 'obj features)" where
  "predict ext self img mode =
     (if inferencer_class self = OpenVINOTileClassifierWrapper_class then
        (case tiler self of
           None \<Rightarrow> Inl (LibraryError ''AttributeError'')
         | Some t \<Rightarrow>
            (case tiler_predict ext t img mode of
               Inl e \<Rightarrow> Inl e
             | Inr (detections, features) \<Rightarrow>
                (case convert_to_annotation ext (converter self) detections
                        (original_shape ext img) of
                   Inl e \<Rightarrow> Inl e
                 | Inr detections' \<Rightarrow> Inr (detections', features))))
      else
        (case pre_process ext self img of
           Inl e \<Rightarrow> Inl e
         | Inr (img', meta) \<Rightarrow>
            (case forward ext self img' of
               Inl e \<Rightarrow> Inl e
             | Inr raw_predictions \<Rightarrow>
                (case post_process ext self raw_predictions meta of
                   Inl e \<Rightarrow> Inl e
                 | Inr predictions \<Rightarrow>
                    (case (raw_predictions ''feature_vector'', raw_predictions ''saliency_map'') of
                       (Some fv, Some sm) \<Rightarrow>
                         Inr (predictions,
                              (Some (reshape_flat ext fv), Some (first_item ext sm)))
                     | _ \<Rightarrow> Inr (predictions, (None, None)))))))"

text \<open>
  The three constructors of lines 141 to 253. They differ in the name of the model
  wrapper and in the converter; \<open>device\<close> and \<open>num_requests\<close> have their defaults.
\<close>

definition new_inferencer ::
  "'obj externals \<Rightarrow> inferencer_class \<Rightarrow> string \<Rightarrow> ('obj \<Rightarrow> 'obj converter) \<Rightarrow>
   'obj DetectionConfig \<Rightarrow> 'obj \<Rightarrow> bytes \<Rightarrow> bytes option \<Rightarrow>
   error + 'obj BaseInferencerWithConverter" where
  "new_inferencer ext cls wrapper_name conv hp schema model_file weight_file =
     (case OpenvinoAdapter ext (Some model_file) weight_file ''CPU'' 1 of
        Inl e \<Rightarrow> Inl e
      | Inr model_adapter \<Rightarrow>
          (let configuration = attr_asdict ext (postprocessing hp) in
           case create_model ext wrapper_name model_adapter configuration of
             Inl e \<Rightarrow> Inl e
           | Inr m \<Rightarrow>
               Inr \<lparr>inferencer_class = cls, configuration = configuration,
                    inferencer_model = m, converter = conv schema, tiler = None\<rparr>))"

definition OpenVINODetectionInferencer ::
  "'obj externals \<Rightarrow> 'obj DetectionConfig \<Rightarrow> 'obj \<Rightarrow> bytes \<Rightarrow> bytes option \<Rightarrow>
   error + 'obj BaseInferencerWithConverter" where
  "OpenVINODetectionInferencer ext =
     new_inferencer ext OpenVINODetectionInferencer_class ''OTX_SSD''
       DetectionToAnnotationConverter"

definition OpenVINOMaskInferencer ::
  "'obj externals \<Rightarrow> 'obj DetectionConfig \<Rightarrow> 'obj \<Rightarrow> bytes \<Rightarrow> bytes option \<Rightarrow>
   error + 'obj BaseInferencerWithConverter" where
  "OpenVINOMaskInferencer ext =
     new_inferencer ext OpenVINOMaskInferencer_class ''OTX_MaskRCNN''
       MaskToAnnotationConverter"

definition OpenVINORotatedRectInferencer ::
  "'obj externals \<Rightarrow> 'obj DetectionConfig \<Rightarrow> 'obj \<Rightarrow> bytes \<Rightarrow> bytes option \<Rightarrow>
   error + 'obj BaseInferencerWithConverter" where
  "OpenVINORotatedRectInferencer ext =
     new_inferencer ext OpenVINORotatedRectInferencer_class ''OTX_MaskRCNN''
       RotatedRectToAnnotationConverter"

fun is_segm_converter :: "'obj converter \<Rightarrow> bool" where
  "is_segm_converter (DetectionToAnnotationConverter _) = False"
| "is_segm_converter (MaskToAnnotationConverter _) = True"
| "is_segm_converter (RotatedRectToAnnotationConverter _) = True"

text \<open>
  \<open>OpenVINOTileClassifierWrapper.__init__\<close> (lines 271 to 305); \<open>device\<close> and
  \<open>num_requests\<close> have their defaults.
\<close>

definition OpenVINOTileClassifierWrapper ::
  "'obj externals \<Rightarrow> 'obj BaseInferencerWithConverter \<Rightarrow> int \<Rightarrow> pyfloat \<Rightarrow> int \<Rightarrow>
   bytes option \<Rightarrow> bytes option \<Rightarrow> string \<Rightarrow> error + 'obj BaseInferencerWithConverter" where
  "OpenVINOTileClassifierWrapper ext inferencer' tile_size' overlap max_number
     tile_classifier_model_file tile_classifier_weight_file mode =
     (if mode \<notin> set [''async'', ''sync'']
      then Inl (LibraryError ''AssertionError: mode should be async or sync'')
      else
        (case (if tile_classifier_model_file \<noteq> None \<or> tile_classifier_weight_file \<noteq> None
               then (case OpenvinoAdapter ext tile_classifier_model_file
                            tile_classifier_weight_file ''CPU'' 1 of
                       Inl e \<Rightarrow> Inl e
                     | Inr adapter \<Rightarrow>
                         (case Model ext adapter of
                            Inl e \<Rightarrow> Inl e
                          | Inr classifier \<Rightarrow> Inr (Some classifier)))
               else Inr None) of
           Inl e \<Rightarrow> Inl e
         | Inr classifier \<Rightarrow>
             Inr \<lparr>inferencer_class = OpenVINOTileClassifierWrapper_class,
                  configuration = configuration inferencer',
                  inferencer_model = inferencer_model inferencer',
                  converter = converter inferencer',
                  tiler = Some \<lparr>tiler_tile_size = tile_size', tiler_overlap = overlap,
                                tiler_max_number = max_number,
                                tiler_detector = inferencer_model inferencer',
                                tiler_classifier = classifier, tiler_mode = mode,
                                tiler_segm = is_segm_converter (converter inferencer')\<rparr>\<rparr>))"

subsection \<open>OTXOpenVinoDataLoader (lines 325 to 342)\<close>

text \<open>
  \<open>__getitem__\<close> assigns nothing: the result is the loader as the call leaves it, and
  the triple returned or the exception raised.
\<close>

definition loader_getitem ::
  "'obj externals \<Rightarrow> 'obj OTXOpenVinoDataLoader \<Rightarrow> int \<Rightarrow>
   'obj OTXOpenVinoDataLoader \<times>
   (error + ((int \<times> 'obj AnnotationSceneEntity) \<times> 'obj \<times> 'obj))" where
  "loader_getitem ext self index =
     (self,
      (case dataset_getitem (loader_dataset self) index of
         Inl e \<Rightarrow> Inl e
       | Inr item \<Rightarrow>
           (let img = numpy item in
            case dataset_getitem (loader_dataset self) index of
              Inl e \<Rightarrow> Inl e
            | Inr item' \<Rightarrow>
                (let annotation = annotation_scene item' in
                 case pre_process ext (loader_inferencer self) img of
                   Inl e \<Rightarrow> Inl e
                 | Inr (inputs, meta) \<Rightarrow> Inr ((index, annotation), inputs, meta)))))"

definition loader_len :: "'obj OTXOpenVinoDataLoader \<Rightarrow> nat" where
  "loader_len self = length (loader_dataset self)"

subsection \<open>load\_config (lines 363 to 379)\<close>

text \<open>The body of the \<open>try\<close> statement: its value is the new \<open>config\<close>.\<close>

definition merge_config_json ::
  "'obj externals \<Rightarrow> ModelEntity option \<Rightarrow> 'obj config \<Rightarrow> error + 'obj config" where
  "merge_config_json ext m cfg =
     (case m of
        None \<Rightarrow> Inr cfg
      | Some m' \<Rightarrow>
          (case get_data m' ''config.json'' of
             Inl e \<Rightarrow> Inl e
           | Inr d \<Rightarrow>
               if d = [] then Inr cfg
               else
                 (case get_data m' ''config.json'' of
                    Inl e \<Rightarrow> Inl e
                  | Inr d' \<Rightarrow>
                      (case json_loads ext d' of
                         Inl e \<Rightarrow> Inl e
                       | Inr json_dict \<Rightarrow>
                           (case flatten_config_values ext json_dict of
                              Inl e \<Rightarrow> Inl e
                            | Inr json_dict' \<Rightarrow> merge_a_into_b ext json_dict' cfg)))))"

definition load_config :: "'obj externals \<Rightarrow> 'obj OpenVINODetectionTask \<Rightarrow> error + 'obj config" where
  "load_config ext self =
     (case flatten_detection_config_groups ext (hparams self) of
        Inl e \<Rightarrow> Inl e
      | Inr cfg \<Rightarrow>
          (case merge_config_json ext (model self) cfg of
             Inl e \<Rightarrow> Inr cfg
           | Inr cfg' \<Rightarrow> Inr cfg'))"

subsection \<open>load\_inferencer (lines 381 to 434)\<close>

text \<open>
  The local variable \<open>inferencer\<close> is bound by one of the three \<open>if\<close> statements, or
  not at all: reading it then raises \<open>UnboundLocalError\<close>.
\<close>

definition inferencer_of_task_type ::
  "'obj externals \<Rightarrow> TaskType \<Rightarrow> 'obj DetectionConfig \<Rightarrow> 'obj \<Rightarrow> bytes \<Rightarrow> bytes \<Rightarrow>
   error + 'obj BaseInferencerWithConverter option" where
  "inferencer_of_task_type ext tt hp schema xml bin_data =
     (case (if tt = DETECTION
            then map_sum id Some (OpenVINODetectionInferencer ext hp schema xml (Some bin_data))
            else Inr None) of
        Inl e \<Rightarrow> Inl e
      | Inr i1 \<Rightarrow>
     (case (if tt = INSTANCE_SEGMENTATION
            then map_sum id Some (OpenVINOMaskInferencer ext hp schema xml (Some bin_data))
            else Inr i1) of
        Inl e \<Rightarrow> Inl e
      | Inr i2 \<Rightarrow>
          (if tt = ROTATED_DETECTION
           then map_sum id Some (OpenVINORotatedRectInferencer ext hp schema xml (Some bin_data))
           else Inr i2)))"

definition wrap_tiling ::
  "'obj externals \<Rightarrow> 'obj config \<Rightarrow> ModelEntity \<Rightarrow> 'obj BaseInferencerWithConverter option \<Rightarrow>
   error + 'obj BaseInferencerWithConverter option" where
  "wrap_tiling ext cfg m inferencer' =
     (if enable_tiling (tiling_parameters cfg) then
        (case (if enable_tile_classifier (tiling_parameters cfg)
               then (case get_data m ''tile_classifier.xml'' of
                       Inl e \<Rightarrow> Inl e
                     | Inr x \<Rightarrow>
                         (case get_data m ''tile_classifier.bin'' of
                            Inl e \<Rightarrow> Inl e
                          | Inr b \<Rightarrow> Inr (Some x, Some b)))
               else Inr (None, None)) of
           Inl e \<Rightarrow> Inl e
         | Inr (tile_classifier_model_file, tile_classifier_weight_file) \<Rightarrow>
             (case inferencer' of
                None \<Rightarrow> Inl (UnboundLocalError ''inferencer'')
              | Some i \<Rightarrow>
                  map_sum id Some
                    (OpenVINOTileClassifierWrapper ext i
                       (tile_size (tiling_parameters cfg))
                       (tile_overlap (tiling_parameters cfg))
                       (tile_max_number (tiling_parameters cfg))
                       tile_classifier_model_file tile_classifier_weight_file ''async'')))
      else Inr inferencer')"

text \<open>
  \<open>load_inferencer\<close> assigns \<open>self.confidence_threshold\<close> before it builds the
  inferencer, so the result is the task together with the inferencer returned or the
  exception raised. The final \<open>isinstance\<close> test reads the local variable; every
  inferencer built above is an instance of one of the four classes.
\<close>

definition load_inferencer ::
  "'obj externals \<Rightarrow> 'obj OpenVINODetectionTask \<Rightarrow>
   'obj OpenVINODetectionTask \<times> (error + 'obj BaseInferencerWithConverter)" where
  "load_inferencer ext self =
     (case model self of
        None \<Rightarrow> (self, Inl (RuntimeError ''load_inferencer failed, model is None''))
      | Some m \<Rightarrow>
     (case get_data m ''confidence_threshold'' of
        Inl e \<Rightarrow> (self, Inl e)
      | Inr ct \<Rightarrow>
     (case float32_frombuffer0 ct of
        Inl e \<Rightarrow> (self, Inl e)
      | Inr w \<Rightarrow>
          (let self' = self\<lparr>confidence_threshold := of_float32 ext w\<rparr>;
               hp = (hparams self)
                 \<lparr>postprocessing := (postprocessing (hparams self))
                    \<lparr>postprocessing_confidence_threshold := confidence_threshold self'\<rparr>\<rparr>
           in
           (self',
            (case get_data m ''openvino.xml'' of
               Inl e \<Rightarrow> Inl e
             | Inr xml \<Rightarrow>
            (case get_data m ''openvino.bin'' of
               Inl e \<Rightarrow> Inl e
             | Inr bin_data \<Rightarrow>
            (case inferencer_of_task_type ext (task_type self) hp
                    (label_schema (task_environment self)) xml bin_data of
               Inl e \<Rightarrow> Inl e
             | Inr inferencer' \<Rightarrow>
            (case wrap_tiling ext (config self) m inferencer' of
               Inl e \<Rightarrow> Inl e
             | Inr None \<Rightarrow> Inl (UnboundLocalError ''inferencer'')
             | Inr (Some i) \<Rightarrow> Inr i)))))))))"

subsection \<open>infer (lines 436 to 492)\<close>

text \<open>
  Modelled from the spec: \<open>DatasetItemEntity.append_annotations\<close> and
  \<open>add_saliency_maps_to_dataset_item\<close> are missing from the sources. The first appends
  to the item's annotation scene the annotations that the API accepts for the item
  (\<open>validated_annotations\<close>); the second appends one metadata item for each saliency
  media it computes (\<open>saliency_media\<close>).
\<close>

definition append_annotations ::
  "'obj externals \<Rightarrow> 'obj list \<Rightarrow> 'obj DatasetItemEntity \<Rightarrow> 'obj DatasetItemEntity" where
  "append_annotations ext anns item =
     item\<lparr>annotation_scene :=
       \<lparr>annotations = annotations (annotation_scene item) @ validated_annotations ext item anns\<rparr>\<rparr>"

definition add_saliency_maps_to_dataset_item ::
  "'obj externals \<Rightarrow> 'obj DatasetItemEntity \<Rightarrow> 'obj \<Rightarrow> ModelEntity option \<Rightarrow> 'obj list \<Rightarrow>
   'obj list \<Rightarrow> bool \<Rightarrow> bool \<Rightarrow> error + 'obj DatasetItemEntity" where
  "add_saliency_maps_to_dataset_item ext dataset_item saliency_map m labels
     predicted_scored_labels explain_predicted_classes process_saliency_maps =
     (case saliency_media ext dataset_item saliency_map m labels predicted_scored_labels
             explain_predicted_classes process_saliency_maps of
        Inl e \<Rightarrow> Inl e
      | Inr media \<Rightarrow>
          Inr (fold (\<lambda>x. append_metadata_item (ResultMediaEntity x) m) media dataset_item))"

text \<open>
  The values that lines 444 to 453 take from \<open>inference_parameters\<close>, in the order
  \<open>update_progress_callback\<close>, \<open>add_saliency_map\<close>, \<open>process_saliency_maps\<close>,
  \<open>explain_predicted_classes\<close>.
\<close>

definition infer_settings ::
  "InferenceParameters option \<Rightarrow> progress_callback \<times> bool \<times> bool \<times> bool" where
  "infer_settings inference_parameters =
     (case inference_parameters of
        Some p \<Rightarrow>
          (infer_update_progress p, \<not> is_evaluation p, infer_process_saliency_maps p,
           infer_explain_predicted_classes p)
      | None \<Rightarrow> (default_progress_callback, True, False, True))"

text \<open>
  One pass of the loop body (lines 458 to 488) on the item numbered \<open>i\<close>: the item as
  the pass leaves it, and the exception if the pass raised.
\<close>

definition infer_item ::
  "'obj externals \<Rightarrow> 'obj OpenVINODetectionTask \<Rightarrow> progress_callback \<times> bool \<times> bool \<times> bool \<Rightarrow>
   nat \<Rightarrow> nat \<Rightarrow> 'obj DatasetItemEntity \<Rightarrow> 'obj DatasetItemEntity \<times> error option" where
  "infer_item ext self settings dataset_size i dataset_item =
     (case settings of
        (update_progress_callback, add_saliency_map, process_saliency_maps,
         explain_predicted_classes) \<Rightarrow>
     (case predict ext (inferencer self) (numpy dataset_item) ''async'' of
        Inl e \<Rightarrow> (dataset_item, Some e)
      | Inr (predicted_scene, (feature_vector, saliency_map)) \<Rightarrow>
          (let item1 = append_annotations ext (annotations predicted_scene) dataset_item;
               item2 = (case feature_vector of
                          None \<Rightarrow> item1
                        | Some fv \<Rightarrow>
                            append_metadata_item
                              (TensorEntity ''representation_vector'' (reshape_flat ext fv))
                              (model self) item1)
           in
           case (case saliency_map of
                   Some sm \<Rightarrow>
                     if add_saliency_map then
                       (let labels0 = get_labels (task_environment self);
                            labels = (if shape0 ext sm = length labels0 + 1
                                      then labels0 @ [background_label ext] else labels0);
                            predicted_scored_labels =
                              concat (map (annotation_get_labels ext)
                                        (annotations predicted_scene))
                        in add_saliency_maps_to_dataset_item ext item2 sm (model self) labels
                             predicted_scored_labels explain_predicted_classes
                             process_saliency_maps)
                     else Inr item2
                 | None \<Rightarrow> Inr item2) of
             Inl e \<Rightarrow> (item2, Some e)
           | Inr item3 \<Rightarrow>
               (item3, update_progress_callback (progress_percent ext i dataset_size)))))"

text \<open>The loop \<open>for i, dataset_item in enumerate(dataset, 1)\<close>.\<close>

fun infer_loop ::
  "'obj externals \<Rightarrow> 'obj OpenVINODetectionTask \<Rightarrow> progress_callback \<times> bool \<times> bool \<times> bool \<Rightarrow>
   nat \<Rightarrow> nat \<Rightarrow> 'obj DatasetEntity \<Rightarrow> 'obj DatasetEntity \<times> error option" where
  "infer_loop ext self settings dataset_size i [] = ([], None)"
| "infer_loop ext self settings dataset_size i (dataset_item # rest) =
     (case infer_item ext self settings dataset_size i dataset_item of
        (item', Some e) \<Rightarrow> (item' # rest, Some e)
      | (item', None) \<Rightarrow>
          (case infer_loop ext self settings dataset_size (i + 1) rest of
             (rest', r) \<Rightarrow> (item' # rest', r)))"

text \<open>
  \<open>infer\<close> changes the items of \<open>dataset\<close> in place and returns \<open>dataset\<close>: the result
  is the dataset as the call leaves it, and the exception if the call raised. After the
  loop, line 489 divides the total time by \<open>len(dataset)\<close> to log the average.
\<close>

definition infer ::
  "'obj externals \<Rightarrow> 'obj OpenVINODetectionTask \<Rightarrow> 'obj DatasetEntity \<Rightarrow>
   InferenceParameters option \<Rightarrow> 'obj DatasetEntity \<times> error option" where
  "infer ext self dataset inference_parameters =
     (let settings = infer_settings inference_parameters;
          dataset_size = length dataset
      in case infer_loop ext self settings dataset_size 1 dataset of
           (dataset', Some e) \<Rightarrow> (dataset', Some e)
         | (dataset', None) \<Rightarrow>
             if length dataset' = 0 then (dataset', Some ZeroDivisionError)
             else (dataset', None))"

subsection \<open>evaluate (lines 543 to 555)\<close>

definition evaluate ::
  "'obj externals \<Rightarrow> 'obj ResultSetEntity \<Rightarrow> string option \<Rightarrow>
   'obj ResultSetEntity \<times> error option" where
  "evaluate ext output_resultset evaluation_metric =
     (case compute_f_measure ext output_resultset of
        Inl e \<Rightarrow> (output_resultset, Some e)
      | Inr metric \<Rightarrow>
          (output_resultset\<lparr>performance := get_performance ext metric\<rparr>, None))"

subsection \<open>deploy (lines 557 to 606)\<close>

text \<open>\<open>os.path.join\<close> of two POSIX paths.\<close>

definition os_path_join :: "string \<Rightarrow> string \<Rightarrow> string" where
  "os_path_join a b =
     (if b \<noteq> [] \<and> hd b = CHR ''/'' then b
      else if a = [] \<or> last a = CHR ''/'' then a @ b
      else a @ ''/'' @ b)"

text \<open>
  \<open>s.split(sep)\<close> at the first occurrence of \<open>sep\<close>: the text before it and the text
  after it. \<open>s.split(sep)[1]\<close> is the text between the first occurrence and the second,
  if there is one; without an occurrence the list has one element and the index is out
  of range.
\<close>

fun split_first :: "string \<Rightarrow> string \<Rightarrow> (string \<times> string) option" where
  "split_first sep [] = None"
| "split_first sep (c # cs) =
     (if take (length sep) (c # cs) = sep then Some ([], drop (length sep) (c # cs))
      else map_option (\<lambda>(before, after). (c # before, after)) (split_first sep cs))"

definition split_item1 :: "string \<Rightarrow> string \<Rightarrow> error + string" where
  "split_item1 sep s =
     (case split_first sep s of
        None \<Rightarrow> Inl IndexError
      | Some (_, after) \<Rightarrow>
          (case split_first sep after of
             None \<Rightarrow> Inr after
           | Some (between, _) \<Rightarrow> Inr between))"

text \<open>
  \<open>ZipFile.writestr\<close> adds an entry with the given name and data. \<open>ZipFile.write\<close>
  adds an entry with the content of a file, which must exist; it normalises the archive
  name it is given (\<open>zip_arcname\<close>: the path is normalised and leading separators are
  removed).
\<close>

definition writestr :: "string \<Rightarrow> bytes \<Rightarrow> zip_archive \<Rightarrow> zip_archive" where
  "writestr name d arch = arch @ [(name, d)]"

definition zip_write ::
  "'obj externals \<Rightarrow> string \<Rightarrow> string \<Rightarrow> zip_archive \<Rightarrow> error + zip_archive" where
  "zip_write ext file_path arcname arch =
     (case read_file ext file_path of
        None \<Rightarrow> Inl (LibraryError ''FileNotFoundError'')
      | Some d \<Rightarrow> Inr (arch @ [(zip_arcname ext arcname, d)]))"

fun truthy_type :: "'obj type_entry \<Rightarrow> bool" where
  "truthy_type (ElementType _) = True"
| "truthy_type (TypeStr s) = (s \<noteq> [])"

fun str_type :: "'obj externals \<Rightarrow> 'obj type_entry \<Rightarrow> string" where
  "str_type ext (ElementType t) = str_ElementType ext t"
| "str_type ext (TypeStr s) = s"

text \<open>
  Lines 563 to 569, once \<open>LabelSchemaMapper.forward\<close> has returned \<open>labels\<close>: with the
  dictionary \<open>parameters\<close>, the task's inferencer receives the labels in its
  configuration, and the \<open>type\<close> of the tiling parameters of the task's configuration
  becomes a string.
\<close>

definition deploy_prepare ::
  "'obj externals \<Rightarrow> 'obj OpenVINODetectionTask \<Rightarrow> 'obj \<Rightarrow>
   'obj OpenVINODetectionTask \<times> 'obj deploy_parameters" where
  "deploy_prepare ext self labels =
     (let model_parameters' = (configuration (inferencer self))(''labels'' \<mapsto> labels);
          tp = tiling_parameters (config self);
          tp' = (case tiling_type tp of
                   Some t \<Rightarrow>
                     if truthy_type t then tp\<lparr>tiling_type := Some (TypeStr (str_type ext t))\<rparr>
                     else tp
                 | None \<Rightarrow> tp);
          self' = self\<lparr>inferencer := (inferencer self)\<lparr>configuration := model_parameters'\<rparr>,
                       config := (config self)\<lparr>tiling_parameters := tp'\<rparr>\<rparr>
      in (self',
          \<lparr>type_of_model = model_name ext (inferencer_model (inferencer self)),
           converter_type = str_TaskType ext (task_type self),
           model_parameters = model_parameters',
           deploy_tiling_parameters = tp'\<rparr>))"

text \<open>Lines 576 to 584: the model files and the serialised parameters.\<close>

definition write_model_files ::
  "'obj externals \<Rightarrow> 'obj config \<Rightarrow> ModelEntity \<Rightarrow> 'obj deploy_parameters \<Rightarrow>
   zip_archive \<Rightarrow> error + zip_archive" where
  "write_model_files ext cfg m parameters arch =
     (case get_data m ''openvino.xml'' of
        Inl e \<Rightarrow> Inl e
      | Inr xml \<Rightarrow>
     (let arch1 = writestr (os_path_join ''model'' ''model.xml'') xml arch in
      case get_data m ''openvino.bin'' of
        Inl e \<Rightarrow> Inl e
      | Inr bin_data \<Rightarrow>
     (let arch2 = writestr (os_path_join ''model'' ''model.bin'') bin_data arch1 in
      case (if enable_tiling (tiling_parameters cfg) \<and>
               enable_tile_classifier (tiling_parameters cfg)
            then (case get_data m ''tile_classifier.xml'' of
                    Inl e \<Rightarrow> Inl e
                  | Inr cxml \<Rightarrow>
                      (let arch3 = writestr (os_path_join ''model'' ''tile_classifier.xml'')
                                     cxml arch2 in
                       case get_data m ''tile_classifier.bin'' of
                         Inl e \<Rightarrow> Inl e
                       | Inr cbin \<Rightarrow>
                           Inr (writestr (os_path_join ''model'' ''tile_classifier.bin'')
                                  cbin arch3)))
            else Inr arch2) of
        Inl e \<Rightarrow> Inl e
      | Inr arch4 \<Rightarrow>
          (case json_dumps ext parameters of
             Inl e \<Rightarrow> Inl e
           | Inr js \<Rightarrow> Inr (writestr (os_path_join ''model'' ''config.json'') js arch4)))))"

text \<open>Lines 586 to 596: the files of the \<open>model_wrappers\<close> package.\<close>

fun write_wrapper_files ::
  "'obj externals \<Rightarrow> string \<Rightarrow> string list \<Rightarrow> zip_archive \<Rightarrow> error + zip_archive" where
  "write_wrapper_files ext root [] arch = Inr arch"
| "write_wrapper_files ext root (file # files) arch =
     (let file_path = os_path_join root file in
      case split_item1 ''model_wrappers/'' file_path of
        Inl e \<Rightarrow> Inl e
      | Inr rel \<Rightarrow>
          (case zip_write ext file_path
                  (os_path_join (os_path_join ''python'' ''model_wrappers'') rel) arch of
             Inl e \<Rightarrow> Inl e
           | Inr arch' \<Rightarrow> write_wrapper_files ext root files arch'))"

fun write_wrappers ::
  "'obj externals \<Rightarrow> (string \<times> string list) list \<Rightarrow> zip_archive \<Rightarrow> error + zip_archive" where
  "write_wrappers ext [] arch = Inr arch"
| "write_wrappers ext ((root, files) # dirs) arch =
     (case write_wrapper_files ext root files arch of
        Inl e \<Rightarrow> Inl e
      | Inr arch' \<Rightarrow> write_wrappers ext dirs arch')"

text \<open>Lines 598 to 604: the files of the demo package.\<close>

fun write_python_files ::
  "'obj externals \<Rightarrow> string list \<Rightarrow> zip_archive \<Rightarrow> error + zip_archive" where
  "write_python_files ext [] arch = Inr arch"
| "write_python_files ext (name # names) arch =
     (case zip_write ext (os_path_join (work_dir ext) name) (os_path_join ''python'' name)
             arch of
        Inl e \<Rightarrow> Inl e
      | Inr arch' \<Rightarrow> write_python_files ext names arch')"

definition write_archive ::
  "'obj externals \<Rightarrow> 'obj config \<Rightarrow> ModelEntity \<Rightarrow> 'obj deploy_parameters \<Rightarrow>
   error + zip_archive" where
  "write_archive ext cfg m parameters =
     (case write_model_files ext cfg m parameters [] of
        Inl e \<Rightarrow> Inl e
      | Inr arch \<Rightarrow>
          (case write_wrappers ext (os_walk ext (model_wrappers_dir ext)) arch of
             Inl e \<Rightarrow> Inl e
           | Inr arch' \<Rightarrow>
               write_python_files ext
                 [''requirements.txt'', ''LICENSE'', ''README.md'', ''demo.py''] arch'))"

text \<open>
  \<open>deploy\<close>: the task and \<open>output_model\<close> as the call leaves them, and the exception if
  the call raised.
\<close>

definition deploy ::
  "'obj externals \<Rightarrow> 'obj OpenVINODetectionTask \<Rightarrow> ModelEntity \<Rightarrow>
   'obj OpenVINODetectionTask \<times> ModelEntity \<times> error option" where
  "deploy ext self output_model =
     (case LabelSchemaMapper_forward ext (label_schema (task_environment self)) of
        Inl e \<Rightarrow> (self, output_model, Some e)
      | Inr labels \<Rightarrow>
     (case deploy_prepare ext self labels of
        (self', parameters) \<Rightarrow>
          (case model self' of
             None \<Rightarrow> (self', output_model, Some (ValueError ''Deploy failed, model is None''))
           | Some m \<Rightarrow>
               (case write_archive ext (config self') m parameters of
                  Inl e \<Rightarrow> (self', output_model, Some e)
                | Inr arch \<Rightarrow> (self', output_model\<lparr>exportable_code := Some arch\<rparr>, None)))))"

subsection \<open>optimize (lines 608 to 707)\<close>

text \<open>
  Lines 626 to 639: the IR of the task's model is loaded as a graph, which must not
  hold a \<open>FakeQuantize\<close> node.
\<close>

definition read_ir :: "'obj externals \<Rightarrow> ModelEntity \<Rightarrow> error + 'obj" where
  "read_ir ext m =
     (case get_data m ''openvino.xml'' of
        Inl e \<Rightarrow> Inl e
      | Inr xml \<Rightarrow>
          (case get_data m ''openvino.bin'' of
             Inl e \<Rightarrow> Inl e
           | Inr bin_data \<Rightarrow>
               (case load_model ext xml bin_data of
                  Inl e \<Rightarrow> Inl e
                | Inr graph \<Rightarrow>
                    if get_nodes_by_type ext graph [''FakeQuantize''] \<noteq> []
                    then Inl (RuntimeError ''Model is already optimized by POT'')
                    else Inr graph)))"

definition notify :: "OptimizationParameters option \<Rightarrow> int \<Rightarrow> error option" where
  "notify optimization_parameters progress =
     (case optimization_parameters of
        None \<Rightarrow> None
      | Some p \<Rightarrow> update_progress p progress)"

fun preset_name_lower :: "POTQuantizationPreset \<Rightarrow> string" where
  "preset_name_lower PERFORMANCE = ''performance''"
| "preset_name_lower MIXED = ''mixed''"

text \<open>Lines 641 to 677: the quantization pipeline runs on the graph.\<close>

definition quantize ::
  "'obj externals \<Rightarrow> 'obj OpenVINODetectionTask \<Rightarrow> 'obj OTXOpenVinoDataLoader \<Rightarrow> 'obj \<Rightarrow>
   OptimizationParameters option \<Rightarrow> error + 'obj" where
  "quantize ext self data_loader graph optimization_parameters =
     (case notify optimization_parameters 10 of
        Some e \<Rightarrow> Inl e
      | None \<Rightarrow>
     (let pot = pot_parameters (hparams self);
          engine_cfg = \<lparr>device = ''CPU'',
                        engine_stat_requests_number =
                          min (stat_requests_number pot) (cpu_count ext)\<rparr>;
          algorithms =
            [\<lparr>algorithm_name = ''DefaultQuantization'', target_device = ''ANY'',
              algorithm_preset = preset_name_lower (preset pot),
              algorithm_stat_subset_size = min (stat_subset_size pot) (loader_len data_loader),
              shuffle_data = True\<rparr>]
      in
      case IEEngine ext engine_cfg data_loader of
        Inl e \<Rightarrow> Inl e
      | Inr engine \<Rightarrow>
     (case create_pipeline ext algorithms engine of
        Inl e \<Rightarrow> Inl e
      | Inr pipeline \<Rightarrow>
     (case pipeline_run ext pipeline graph of
        Inl e \<Rightarrow> Inl e
      | Inr compressed_model \<Rightarrow>
     (case compress_model_weights ext compressed_model of
        Inl e \<Rightarrow> Inl e
      | Inr compressed_model' \<Rightarrow>
     (case notify optimization_parameters 90 of
        Some e \<Rightarrow> Inl e
      | None \<Rightarrow> Inr compressed_model'))))))"

text \<open>
  Lines 679 to 700: the compressed model, the confidence threshold, the label schema and
  the configuration are stored in \<open>output_model\<close>, and its attributes are set. The
  result is \<open>output_model\<close> as these lines leave it, and the exception if one was raised.
\<close>

definition save_outputs ::
  "'obj externals \<Rightarrow> 'obj OpenVINODetectionTask \<Rightarrow> 'obj \<Rightarrow> ModelEntity \<Rightarrow>
   ModelEntity \<times> error option" where
  "save_outputs ext self compressed_model output_model =
     (case save_model ext compressed_model of
        Inl e \<Rightarrow> (output_model, Some e)
      | Inr (xml, bin_data) \<Rightarrow>
     (let om1 = set_data ''openvino.xml'' xml output_model;
          om2 = set_data ''openvino.bin'' bin_data om1;
          om3 = set_data ''confidence_threshold''
                  (float32_tobytes (to_float32 ext (confidence_threshold self))) om2
      in
      case label_schema_to_bytes ext (label_schema (task_environment self)) of
        Inl e \<Rightarrow> (om3, Some e)
      | Inr schema_bytes \<Rightarrow>
     (let om4 = set_data ''label_schema.json'' schema_bytes om3 in
      case config_to_bytes ext (hparams self) of
        Inl e \<Rightarrow> (om4, Some e)
      | Inr config_bytes \<Rightarrow>
          ((set_data ''config.json'' config_bytes om4)
             \<lparr>model_format := OPENVINO, optimization_type := MO_POT,
              optimization_methods := [QUANTIZATION], precision := [INT8]\<rparr>,
           None))))"

text \<open>
  \<open>optimize\<close>: the task and \<open>output_model\<close> as the call leaves them, and the exception
  if the call raised.
\<close>

definition optimize ::
  "'obj externals \<Rightarrow> 'obj OpenVINODetectionTask \<Rightarrow> OptimizationType \<Rightarrow> 'obj DatasetEntity \<Rightarrow>
   ModelEntity \<Rightarrow> OptimizationParameters option \<Rightarrow>
   'obj OpenVINODetectionTask \<times> ModelEntity \<times> error option" where
  "optimize ext self optimization_type' dataset output_model optimization_parameters =
     (if optimization_type' \<noteq> POT then
        (self, output_model,
         Some (ValueError ''POT is the only supported optimization type for OpenVino models''))
      else
     (case model self of
        None \<Rightarrow> (self, output_model, Some (RuntimeError ''Optimize failed, model is None''))
      | Some m \<Rightarrow>
     (let dataset' = get_subset dataset TRAINING;
          data_loader = \<lparr>loader_dataset = dataset', loader_inferencer = inferencer self\<rparr>
      in
      case read_ir ext m of
        Inl e \<Rightarrow> (self, output_model, Some e)
      | Inr graph \<Rightarrow>
     (case quantize ext self data_loader graph optimization_parameters of
        Inl e \<Rightarrow> (self, output_model, Some e)
      | Inr compressed_model \<Rightarrow>
     (case save_outputs ext self compressed_model output_model of
        (output_model', Some e) \<Rightarrow> (self, output_model', Some e)
      | (output_model', None) \<Rightarrow>
     (case load_inferencer ext (self\<lparr>model := Some output_model'\<rparr>) of
        (self', Inl e) \<Rightarrow> (self', output_model', Some e)
      | (self', Inr inferencer') \<Rightarrow>
          (self'\<lparr>inferencer := inferencer'\<rparr>, output_model',
           notify optimization_parameters 100)))))))"

section \<open>Properties\<close>

text \<open>
  An item is extended when its image and subset are what they were, and its annotations
  and its metadata are the former ones followed by new ones.
\<close>

definition item_extended :: "'obj DatasetItemEntity \<Rightarrow> 'obj DatasetItemEntity \<Rightarrow> bool" where
  "item_extended item item' \<longleftrightarrow>
     numpy item' = numpy item \<and> subset item' = subset item \<and>
     (\<exists>anns. annotations (annotation_scene item') = annotations (annotation_scene item) @ anns) \<and>
     (\<exists>items. metadata item' = metadata item @ items)"


text \<open>
  The inferencer that matches a task type: the one that the constructor of the class
  for that task type returns for the given hyper-parameters, label schema and IR files.
\<close>

definition matching_inferencer ::
  "'obj externals \<Rightarrow> TaskType \<Rightarrow> 'obj DetectionConfig \<Rightarrow> 'obj \<Rightarrow> bytes \<Rightarrow> bytes \<Rightarrow>
   'obj BaseInferencerWithConverter \<Rightarrow> bool" where
  "matching_inferencer ext tt hp schema xml bin_data base \<longleftrightarrow>
     (tt = DETECTION \<and>
        OpenVINODetectionInferencer ext hp schema xml (Some bin_data) = Inr base) \<or>
     (tt = INSTANCE_SEGMENTATION \<and>
        OpenVINOMaskInferencer ext hp schema xml (Some bin_data) = Inr base) \<or>
     (tt = ROTATED_DETECTION \<and>
        OpenVINORotatedRectInferencer ext hp schema xml (Some bin_data) = Inr base)"

text \<open>
  An \<open>OpenVINOTileClassifierWrapper\<close> around the inferencer \<open>base\<close>: it has the
  configuration, the model and the converter of \<open>base\<close>, and a tiler with the tile size,
  overlap and maximal number of the tiling parameters, the model of \<open>base\<close> as detector
  and the given tile classifier, if any.
\<close>

definition tile_wrapper ::
  "'obj TilingParameters \<Rightarrow> 'obj BaseInferencerWithConverter \<Rightarrow> 'obj option \<Rightarrow>
   'obj BaseInferencerWithConverter" where
  "tile_wrapper tp base classifier =
     \<lparr>inferencer_class = OpenVINOTileClassifierWrapper_class,
      configuration = configuration base,
      inferencer_model = inferencer_model base,
      converter = converter base,
      tiler = Some \<lparr>tiler_tile_size = tile_size tp, tiler_overlap = tile_overlap tp,
                    tiler_max_number = tile_max_number tp,
                    tiler_detector = inferencer_model base,
                    tiler_classifier = classifier, tiler_mode = ''async'',
                    tiler_segm = is_segm_converter (converter base)\<rparr>\<rparr>"

text \<open>
  The entries of the deployment archive for the model: the two IR files, the two files
  of the tile classifier if there is one, and the serialised parameters.
\<close>

definition model_entries ::
  "bytes \<Rightarrow> bytes \<Rightarrow> (bytes \<times> bytes) option \<Rightarrow> bytes \<Rightarrow> zip_archive" where
  "model_entries xml bin_data classifier js =
     [(''model/model.xml'', xml), (''model/model.bin'', bin_data)] @
     (case classifier of
        None \<Rightarrow> []
      | Some (cxml, cbin) \<Rightarrow>
          [(''model/tile_classifier.xml'', cxml), (''model/tile_classifier.bin'', cbin)]) @
     [(''model/config.json'', js)]"

text \<open>
  The tile classifier that goes into the archive: the model's \<open>tile_classifier.xml\<close> and
  \<open>tile_classifier.bin\<close> when tiling and the tile classifier are both enabled, and none
  otherwise.
\<close>

definition tile_classifier_data ::
  "'obj config \<Rightarrow> ModelEntity \<Rightarrow> (bytes \<times> bytes) option \<Rightarrow> bool" where
  "tile_classifier_data cfg m classifier \<longleftrightarrow>
     (case classifier of
        None \<Rightarrow>
          \<not> (enable_tiling (tiling_parameters cfg) \<and>
             enable_tile_classifier (tiling_parameters cfg))
      | Some (cxml, cbin) \<Rightarrow>
          enable_tiling (tiling_parameters cfg) \<and>
          enable_tile_classifier (tiling_parameters cfg) \<and>
          get_data m ''tile_classifier.xml'' = Inr cxml \<and>
          get_data m ''tile_classifier.bin'' = Inr cbin)"

text \<open>
  The entries for the files of the \<open>model_wrappers\<close> package and of the demo package,
  as lines 586 to 604 write them into an empty archive.
\<close>

definition package_files :: "'obj externals \<Rightarrow> error + zip_archive" where
  "package_files ext =
     (case write_wrappers ext (os_walk ext (model_wrappers_dir ext)) [] of
        Inl e \<Rightarrow> Inl e
      | Inr arch \<Rightarrow>
          write_python_files ext
            [''requirements.txt'', ''LICENSE'', ''README.md'', ''demo.py''] arch)"
section \<open>Concrete inputs\<close>

subsection \<open>State dicts\<close>

text \<open>
  A tensor of one dimension, given by its elements, and a tensor of two dimensions, given
  by the number of its columns and by its rows.
\<close>

definition vector :: "'a list \<Rightarrow> 'a tensor" where
  "vector xs = \<lparr>trailing = [], content = map (\<lambda>x. [x]) xs\<rparr>"

definition matrix :: "nat \<Rightarrow> 'a list list \<Rightarrow> 'a tensor" where
  "matrix n xss = \<lparr>trailing = [n], content = xss\<rparr>"

text \<open>
  A model with the classes cat and dog and a background row loads a checkpoint with the
  classes dog, bird and cat and a background row, under the prefix \<open>module.\<close>.
  Elements are numbers here.
\<close>

definition adapt_model_dict :: "nat state_dict" where
  "adapt_model_dict =
     [''roi_head.bbox_head.fc_cls.bias'' \<mapsto> vector [10, 20, 30],
      ''roi_head.bbox_head.fc_cls.weight'' \<mapsto> matrix 2 [[10, 11], [20, 21], [30, 31]]]"

definition adapt_chkpt_dict :: "nat state_dict" where
  "adapt_chkpt_dict =
     [''module.roi_head.bbox_head.fc_cls.bias'' \<mapsto> vector [1, 2, 3, 4],
      ''module.roi_head.bbox_head.fc_cls.weight'' \<mapsto>
         matrix 2 [[1, 5], [2, 6], [3, 7], [4, 8]],
      ''module.backbone.conv1.bias'' \<mapsto> vector [7]]"

text \<open>
  A checkpoint whose classification layer has no background row (two classes, two rows)
  is loaded into a model that has one (two classes, three rows).
\<close>

definition sigmoid_chkpt_dict :: "nat state_dict" where
  "sigmoid_chkpt_dict = [''roi_head.bbox_head.fc_cls.bias'' \<mapsto> vector [1, 2]]"

text \<open>
  A checkpoint whose classification weight has three columns is loaded into a model
  whose weight has two.
\<close>

definition wide_chkpt_dict :: "nat state_dict" where
  "wide_chkpt_dict =
     [''roi_head.bbox_head.fc_cls.weight'' \<mapsto> matrix 3 [[1, 1, 1], [3, 3, 3], [4, 4, 4]]]"
subsection \<open>A task environment\<close>

text \<open>
  Library objects are strings here. Every library call succeeds; the IR graph that
  \<open>load_model\<close> returns is the text of the two files, and it holds a \<open>FakeQuantize\<close>
  node when the XML text is \<open>quantized\<close>.
\<close>

fun demo_str_TaskType :: "TaskType \<Rightarrow> string" where
  "demo_str_TaskType CLASSIFICATION = ''CLASSIFICATION''"
| "demo_str_TaskType SEGMENTATION = ''SEGMENTATION''"
| "demo_str_TaskType DETECTION = ''DETECTION''"
| "demo_str_TaskType INSTANCE_SEGMENTATION = ''INSTANCE_SEGMENTATION''"
| "demo_str_TaskType ROTATED_DETECTION = ''ROTATED_DETECTION''"

definition demo_tiling :: "string TilingParameters" where
  "demo_tiling =
     \<lparr>tiling_type = Some (ElementType ''PARAMETER_GROUP''), enable_tiling = True,
      enable_tile_classifier = True, tile_size = 400, tile_overlap = 2, tile_max_number = 1500\<rparr>"

definition demo_files :: "string \<rightharpoonup> bytes" where
  "demo_files =
     [''/pkg/model_wrappers/openvino_models.py'' \<mapsto> ''wrappers'',
      ''/demo/requirements.txt'' \<mapsto> ''openvino'',
      ''/demo/LICENSE'' \<mapsto> ''Apache-2.0'',
      ''/demo/README.md'' \<mapsto> ''readme'',
      ''/demo/demo.py'' \<mapsto> ''main'']"

definition demo_ext :: "string externals" where
  "demo_ext =
     \<lparr>flatten_detection_config_groups =
        (\<lambda>hp. Inr \<lparr>tiling_parameters = demo_tiling, other_groups = other_parameters hp\<rparr>),
      json_loads = (\<lambda>b. if b = ''?'' then Inl (LibraryError ''JSONDecodeError'') else Inr b),
      flatten_config_values = Inr,
      merge_a_into_b = (\<lambda>j cfg. Inr (cfg\<lparr>other_groups := j\<rparr>)),
      json_dumps = (\<lambda>p. Inr (type_of_model p @ '' '' @ converter_type p)),
      config_to_bytes = (\<lambda>hp. Inr (other_parameters hp)),
      to_float32 = ucast,
      of_float32 = ucast,
      reshape_flat = id,
      first_item = id,
      shape0 = length,
      progress_percent = (\<lambda>i n. int (i * 100 div n)),
      OpenvinoAdapter = (\<lambda>model_file weight_file dev n. Inr ''adapter''),
      attr_asdict = (\<lambda>pp. Map.empty),
      create_model = (\<lambda>name adapter conf. Inr name),
      Model = Inr,
      model_name = id,
      preprocess = (\<lambda>m img. Inr (img, ''meta'')),
      infer_sync = (\<lambda>m img. Inr Map.empty),
      postprocess = (\<lambda>m prediction meta. Inr ''detections''),
      convert_to_annotation = (\<lambda>c detections meta. Inr \<lparr>annotations = [detections]\<rparr>),
      detection2array = Inr,
      original_shape = id,
      tiler_predict = (\<lambda>t img mode. Inr (''detections'', None, None)),
      validated_annotations = (\<lambda>item anns. anns),
      annotation_get_labels = (\<lambda>a. []),
      background_label = ''background'',
      saliency_media = (\<lambda>item sm m labels scored explain process. Inr []),
      compute_f_measure = (\<lambda>rs. Inr ''f-measure''),
      get_performance = id,
      LabelSchemaMapper_forward = Inr,
      label_schema_to_bytes = Inr,
      str_TaskType = demo_str_TaskType,
      str_ElementType = id,
      load_model = (\<lambda>xml bin_data. Inr (xml @ bin_data)),
      get_nodes_by_type = (\<lambda>g types. if take 9 g = ''quantized'' then [''FakeQuantize''] else []),
      cpu_count = 4,
      IEEngine = (\<lambda>c loader. Inr ''engine''),
      create_pipeline = (\<lambda>algorithms engine. Inr ''pipeline''),
      pipeline_run = (\<lambda>pipeline g. Inr g),
      compress_model_weights = Inr,
      save_model = (\<lambda>g. Inr (''int8 xml'', ''int8 bin'')),
      work_dir = ''/demo'',
      model_wrappers_dir = ''/pkg/model_wrappers'',
      os_walk = (\<lambda>top. [(top, [''openvino_models.py''])]),
      read_file = demo_files,
      zip_arcname = dropWhile (\<lambda>c. c = CHR ''/'')\<rparr>"

definition demo_model :: ModelEntity where
  "demo_model =
     \<lparr>model_adapters =
        [''openvino.xml'' \<mapsto> ''xml'', ''openvino.bin'' \<mapsto> ''bin'',
         ''confidence_threshold'' \<mapsto> float32_tobytes 7,
         ''tile_classifier.xml'' \<mapsto> ''cxml'', ''tile_classifier.bin'' \<mapsto> ''cbin'',
         ''config.json'' \<mapsto> ''{}''],
      model_format = OPENVINO, optimization_type = MO_NONE, optimization_methods = [],
      precision = [FP32], exportable_code = None\<rparr>"

definition demo_output_model :: ModelEntity where
  "demo_output_model =
     \<lparr>model_adapters = Map.empty, model_format = BASE_FRAMEWORK,
      optimization_type = MO_NONE, optimization_methods = [], precision = [FP32],
      exportable_code = None\<rparr>"

definition demo_hparams :: "string DetectionConfig" where
  "demo_hparams =
     \<lparr>postprocessing =
        \<lparr>postprocessing_confidence_threshold = 0, postprocessing_rest = ''postprocessing''\<rparr>,
      pot_parameters = \<lparr>stat_requests_number = 2, stat_subset_size = 300, preset = PERFORMANCE\<rparr>,
      other_parameters = ''learning parameters''\<rparr>"

definition demo_inferencer :: "string BaseInferencerWithConverter" where
  "demo_inferencer =
     \<lparr>inferencer_class = OpenVINOMaskInferencer_class, configuration = Map.empty,
      inferencer_model = ''OTX_MaskRCNN'', converter = MaskToAnnotationConverter ''schema'',
      tiler = None\<rparr>"

definition demo_task :: "string OpenVINODetectionTask" where
  "demo_task =
     \<lparr>task_environment =
        \<lparr>label_schema = ''schema'', hyper_parameters = demo_hparams,
         get_labels = [''rectangle'', ''ellipse'', ''triangle'']\<rparr>,
      model = Some demo_model, task_type = INSTANCE_SEGMENTATION, confidence_threshold = 7,
      config = \<lparr>tiling_parameters = demo_tiling, other_groups = ''learning parameters''\<rparr>,
      inferencer = demo_inferencer\<rparr>"

definition demo_item :: "string \<Rightarrow> string DatasetItemEntity" where
  "demo_item img =
     \<lparr>numpy = img, annotation_scene = \<lparr>annotations = [''box of '' @ img]\<rparr>, metadata = [],
      subset = TRAINING\<rparr>"

definition demo_resultset :: "string ResultSetEntity" where
  "demo_resultset =
     \<lparr>ground_truth_dataset = [demo_item ''a''], prediction_dataset = [demo_item ''a''],
      performance = ''none''\<rparr>"


text \<open>The same task with tiling switched off.\<close>

definition demo_plain_task :: "string OpenVINODetectionTask" where
  "demo_plain_task =
     demo_task\<lparr>config :=
       \<lparr>tiling_parameters = demo_tiling\<lparr>enable_tiling := False\<rparr>,
        other_groups = ''learning parameters''\<rparr>\<rparr>"
section \<open>Verification\<close>

subsection \<open>Broadcasting to the same shape\<close>

lemma length_concat_rows:
  "list_all (\<lambda>r. length r = m) rs \<Longrightarrow> length (concat rs) = length rs * m"
  by (induction rs) simp_all

lemma chunks_concat:
  "list_all (\<lambda>r. length r = m) rs \<Longrightarrow> chunks m (length rs) (concat rs) = rs"
  by (induction rs) simp_all

lemma concat_chunks:
  "length d = k * m \<Longrightarrow> concat (chunks m k d) = d"
proof (induction k arbitrary: d)
  case 0
  then show ?case by simp
next
  case (Suc k)
  then have "length (drop m d) = k * m" by simp
  then have "concat (chunks m k (drop m d)) = drop m d" by (rule Suc.IH)
  then show ?case by simp
qed

lemma length_chunks:
  "length d = k * m \<Longrightarrow> list_all (\<lambda>c. length c = m) (chunks m k d)"
proof (induction k arbitrary: d)
  case 0
  then show ?case by simp
next
  case (Suc k)
  then have "length (drop m d) = k * m" by simp
  then have "list_all (\<lambda>c. length c = m) (chunks m k (drop m d))" by (rule Suc.IH)
  with Suc.prems show ?case by simp
qed

lemma expand_same:
  "length d = prod_list s \<Longrightarrow> expand s s d = d"
proof (induction s arbitrary: d)
  case Nil
  then show ?case by simp
next
  case (Cons v vs)
  from Cons.prems have len: "length d = v * prod_list vs" by simp
  have "map (expand vs vs) (chunks (prod_list vs) v d) = chunks (prod_list vs) v d"
  proof (rule map_idI)
    fix c
    assume "c \<in> set (chunks (prod_list vs) v d)"
    with length_chunks [OF len] have "length c = prod_list vs"
      by (simp add: list_all_iff)
    then show "expand vs vs c = c" by (rule Cons.IH)
  qed
  with concat_chunks [OF len] show ?case by simp
qed

lemma chunks_numeral:
  "chunks m (numeral k) d = take m d # chunks m (pred_numeral k) (drop m d)"
  by (simp add: numeral_eq_Suc)

lemma expandable_same: "expandable s s"
  by (simp add: expandable_def list_all2_same)

subsection \<open>Weight remapping\<close>

lemma length_rows: "tensor_len (rows t a b) = min (b - a) (tensor_len t - a)"
  by (simp add: rows_def tensor_len_def)

lemma slice_copy_full:
  assumes "a \<le> b" "b \<le> tensor_len t" "tensor_len src = b - a"
    and "trailing src = trailing t" "well_formed src"
  shows "slice_copy t a b src =
           Inr (t\<lparr>content := take a (content t) @ content src @ drop b (content t)\<rparr>)"
proof -
  let ?tv = "trailing t"
  from assms(1-3) have n: "tensor_len (rows t a b) = tensor_len src"
    by (simp add: length_rows min_def)
  from assms(5) assms(4) have wf: "list_all (\<lambda>r. length r = prod_list ?tv) (content src)"
    by (simp add: well_formed_def)
  from length_concat_rows [OF wf]
  have "length (concat (content src)) = prod_list (tensor_len src # ?tv)"
    by (simp add: tensor_len_def)
  then have e: "expand (tensor_len src # ?tv) (tensor_len src # ?tv) (concat (content src)) =
      concat (content src)"
    by (rule expand_same)
  from chunks_concat [OF wf]
  have c: "chunks (prod_list ?tv) (tensor_len src) (concat (content src)) = content src"
    by (simp add: tensor_len_def)
  from assms(1-3) have ab: "a + tensor_len src = b" by simp
  show ?thesis
    unfolding slice_copy_def Let_def n assms(4) e c ab
    by (simp add: expandable_same)
qed

lemma rows_written:
  assumes "a \<le> b" "b \<le> tensor_len t" "tensor_len src = b - a"
    and "trailing src = trailing t"
  shows "rows (t\<lparr>content := take a (content t) @ content src @ drop b (content t)\<rparr>) a b = src"
  using assms by (simp add: rows_def tensor_len_def)

lemma rows_below:
  assumes "a \<le> b" "b \<le> tensor_len t" "tensor_len src = b - a" "b' \<le> a"
  shows "rows (t\<lparr>content := take a (content t) @ content src @ drop b (content t)\<rparr>) a' b' =
           rows t a' b'"
proof (cases "a' \<le> b'")
  case True
  with assms show ?thesis by (simp add: rows_def tensor_len_def min_def take_drop)
next
  case False
  then show ?thesis by (simp add: rows_def)
qed

lemma rows_above:
  assumes "a \<le> b" "b \<le> tensor_len t" "tensor_len src = b - a" "b \<le> a'"
  shows "rows (t\<lparr>content := take a (content t) @ content src @ drop b (content t)\<rparr>) a' b' =
           rows t a' b'"
  using assms by (simp add: rows_def tensor_len_def min_def)

lemma length_written:
  assumes "a \<le> b" "b \<le> tensor_len t" "tensor_len src = b - a"
  shows "tensor_len (t\<lparr>content := take a (content t) @ content src @ drop b (content t)\<rparr>) =
           tensor_len t"
  using assms by (auto simp add: tensor_len_def min_def)

lemma length_block:
  "(c + 1) * stride \<le> tensor_len t \<Longrightarrow> tensor_len (block stride t c) = stride"
  by (simp add: block_def length_rows)

lemma trailing_block: "trailing (block stride t c) = trailing t"
  by (simp add: block_def rows_def)

lemma well_formed_block: "well_formed t \<Longrightarrow> well_formed (block stride t c)"
proof -
  assume "well_formed t"
  then have "\<forall>r \<in> set (content t). length r = prod_list (trailing t)"
    by (simp add: well_formed_def list_all_iff)
  moreover have "set (take n (drop k (content t))) \<subseteq> set (content t)" for n k
    by (meson set_take_subset set_drop_subset subset_trans)
  ultimately show ?thesis
    by (auto simp add: well_formed_def list_all_iff block_def rows_def)
qed

lemma copy_block:
  assumes dst: "(m + 1) * stride \<le> tensor_len t" and src: "tensor_len s = stride"
    and shape: "trailing s = trailing t" and wf: "well_formed s"
  shows "\<exists>t'. slice_copy t (m * stride) ((m + 1) * stride) s = Inr t' \<and>
           tensor_len t' = tensor_len t \<and> trailing t' = trailing t \<and>
           block stride t' m = s \<and>
           (\<forall>k. k \<noteq> m \<longrightarrow> block stride t' k = block stride t k)"
proof -
  let ?a = "m * stride" and ?b = "(m + 1) * stride"
  let ?t' = "t\<lparr>content := take ?a (content t) @ content s @ drop ?b (content t)\<rparr>"
  have ab: "?a \<le> ?b" by simp
  have len: "tensor_len s = ?b - ?a" using src by simp
  have run: "slice_copy t ?a ?b s = Inr ?t'"
    by (rule slice_copy_full [OF ab dst len shape wf])
  have same: "block stride ?t' m = s"
    unfolding block_def [of stride ?t' m] by (rule rows_written [OF ab dst len shape])
  have other: "block stride ?t' k = block stride t k" if "k \<noteq> m" for k
  proof (cases "k < m")
    case True
    then have "k + 1 \<le> m" by simp
    then have "(k + 1) * stride \<le> ?a" by (rule mult_le_mono1)
    then show ?thesis
      unfolding block_def by (rule rows_below [OF ab dst len])
  next
    case False
    with that have "m + 1 \<le> k" by simp
    then have "?b \<le> k * stride" by (rule mult_le_mono1)
    then show ?thesis
      unfolding block_def by (rule rows_above [OF ab dst len])
  qed
  have tr: "trailing ?t' = trailing t" by simp
  show ?thesis
    using run same other length_written [OF ab dst len] tr by blast
qed

lemma copy_matched_spec:
  assumes "list_all (\<lambda>c. c \<ge> 0 \<longrightarrow> (nat c + 1) * stride \<le> tensor_len cp) cs"
    and "(m + length cs) * stride \<le> tensor_len mp"
    and "trailing mp = trailing cp" and "well_formed cp"
  shows "\<exists>p. copy_matched stride cp mp m cs = Inr p \<and> tensor_len p = tensor_len mp \<and>
           trailing p = trailing mp \<and>
           (\<forall>j < length cs. cs ! j \<ge> 0 \<longrightarrow>
              block stride p (m + j) = block stride cp (nat (cs ! j))) \<and>
           (\<forall>j < length cs. cs ! j < 0 \<longrightarrow>
              block stride p (m + j) = block stride mp (m + j)) \<and>
           (\<forall>k. k < m \<or> m + length cs \<le> k \<longrightarrow> block stride p k = block stride mp k)"
  using assms
proof (induction cs arbitrary: m mp)
  case Nil
  then show ?case by simp
next
  case (Cons c cs)
  note wf = Cons.prems(4)
  have rest: "list_all (\<lambda>c. c \<ge> 0 \<longrightarrow> (nat c + 1) * stride \<le> tensor_len cp) cs"
    using Cons.prems(1) by simp
  have room: "(Suc m + length cs) * stride \<le> tensor_len mp"
    using Cons.prems(2) by simp
  have dst: "(m + 1) * stride \<le> tensor_len mp"
  proof -
    have "(m + 1) * stride \<le> (Suc m + length cs) * stride"
      by (rule mult_le_mono1) simp
    from this room show ?thesis by (rule le_trans)
  qed
  show ?case
  proof (cases "c \<ge> 0")
    case True
    with Cons.prems(1) have src: "(nat c + 1) * stride \<le> tensor_len cp" by simp
    have shape: "trailing (block stride cp (nat c)) = trailing mp"
      using Cons.prems(3) by (simp add: trailing_block)
    from copy_block [OF dst length_block [OF src] shape well_formed_block [OF wf]]
    obtain t' where
      run: "slice_copy mp (m * stride) ((m + 1) * stride) (block stride cp (nat c)) = Inr t'"
      and len: "tensor_len t' = tensor_len mp"
      and tr: "trailing t' = trailing mp"
      and same: "block stride t' m = block stride cp (nat c)"
      and other: "\<And>k. k \<noteq> m \<Longrightarrow> block stride t' k = block stride mp k"
      by blast
    from room len have room': "(Suc m + length cs) * stride \<le> tensor_len t'" by simp
    from tr Cons.prems(3) have tr': "trailing t' = trailing cp" by simp
    from Cons.IH [OF rest room' tr' wf] obtain p where
      p: "copy_matched stride cp t' (Suc m) cs = Inr p" "tensor_len p = tensor_len t'"
        "trailing p = trailing t'"
      and hit: "\<And>j. j < length cs \<Longrightarrow> cs ! j \<ge> 0 \<Longrightarrow>
          block stride p (Suc m + j) = block stride cp (nat (cs ! j))"
      and miss: "\<And>j. j < length cs \<Longrightarrow> cs ! j < 0 \<Longrightarrow>
          block stride p (Suc m + j) = block stride t' (Suc m + j)"
      and out: "\<And>k. k < Suc m \<or> Suc m + length cs \<le> k \<Longrightarrow>
          block stride p k = block stride t' k"
      by blast
    have step: "copy_matched stride cp mp m (c # cs) = Inr p"
      using True run p(1) by (simp add: block_def)
    have A: "block stride p (m + j) = block stride cp (nat ((c # cs) ! j))"
      if "j < length (c # cs)" "(c # cs) ! j \<ge> 0" for j
    proof (cases j)
      case 0
      then show ?thesis using out [of m] same by simp
    next
      case (Suc i)
      then show ?thesis using hit [of i] that by simp
    qed
    have B: "block stride p (m + j) = block stride mp (m + j)"
      if "j < length (c # cs)" "(c # cs) ! j < 0" for j
    proof (cases j)
      case 0
      then show ?thesis using that True by simp
    next
      case (Suc i)
      then show ?thesis using miss [of i] other [of "Suc m + i"] that by simp
    qed
    have C: "block stride p k = block stride mp k"
      if "k < m \<or> m + length (c # cs) \<le> k" for k
      using out [of k] other [of k] that by auto
    have lenp: "tensor_len p = tensor_len mp" using p(2) len by simp
    have trp: "trailing p = trailing mp" using p(3) tr by simp
    have A': "\<forall>j < length (c # cs). (c # cs) ! j \<ge> 0 \<longrightarrow>
        block stride p (m + j) = block stride cp (nat ((c # cs) ! j))"
      using A by (intro allI impI)
    have B': "\<forall>j < length (c # cs). (c # cs) ! j < 0 \<longrightarrow>
        block stride p (m + j) = block stride mp (m + j)"
      using B by (intro allI impI)
    have C': "\<forall>k. k < m \<or> m + length (c # cs) \<le> k \<longrightarrow>
        block stride p k = block stride mp k"
      using C by (intro allI impI)
    show ?thesis
      by (rule exI [of _ p]) (intro conjI step lenp trp A' B' C')
  next
    case False
    from Cons.IH [OF rest room Cons.prems(3) wf] obtain p where
      p: "copy_matched stride cp mp (Suc m) cs = Inr p" "tensor_len p = tensor_len mp"
        "trailing p = trailing mp"
      and hit: "\<And>j. j < length cs \<Longrightarrow> cs ! j \<ge> 0 \<Longrightarrow>
          block stride p (Suc m + j) = block stride cp (nat (cs ! j))"
      and miss: "\<And>j. j < length cs \<Longrightarrow> cs ! j < 0 \<Longrightarrow>
          block stride p (Suc m + j) = block stride mp (Suc m + j)"
      and out: "\<And>k. k < Suc m \<or> Suc m + length cs \<le> k \<Longrightarrow>
          block stride p k = block stride mp k"
      by blast
    have step: "copy_matched stride cp mp m (c # cs) = Inr p"
      using False p(1) by simp
    have A: "block stride p (m + j) = block stride cp (nat ((c # cs) ! j))"
      if "j < length (c # cs)" "(c # cs) ! j \<ge> 0" for j
    proof (cases j)
      case 0
      then show ?thesis using that False by simp
    next
      case (Suc i)
      then show ?thesis using hit [of i] that by simp
    qed
    have B: "block stride p (m + j) = block stride mp (m + j)"
      if "j < length (c # cs)" "(c # cs) ! j < 0" for j
    proof (cases j)
      case 0
      then show ?thesis using out [of m] by simp
    next
      case (Suc i)
      then show ?thesis using miss [of i] that by simp
    qed
    have C: "block stride p k = block stride mp k"
      if "k < m \<or> m + length (c # cs) \<le> k" for k
      using out [of k] that by auto
    have lenp: "tensor_len p = tensor_len mp" by (rule p(2))
    have trp: "trailing p = trailing mp" by (rule p(3))
    have A': "\<forall>j < length (c # cs). (c # cs) ! j \<ge> 0 \<longrightarrow>
        block stride p (m + j) = block stride cp (nat ((c # cs) ! j))"
      using A by (intro allI impI)
    have B': "\<forall>j < length (c # cs). (c # cs) ! j < 0 \<longrightarrow>
        block stride p (m + j) = block stride mp (m + j)"
      using B by (intro allI impI)
    have C': "\<forall>k. k < m \<or> m + length (c # cs) \<le> k \<longrightarrow>
        block stride p k = block stride mp k"
      using C by (intro allI impI)
    show ?thesis
      by (rule exI [of _ p]) (intro conjI step lenp trp A' B' C')
  qed
qed

lemma mix_weights_remapped:
  assumes fb: "full_blocks stride (length mcs) (length ccs) m2c mp cp"
  shows "\<exists>p. mix_weights stride mcs ccs m2c mp cp = Inr p \<and>
           remapped stride (length mcs) (length ccs) m2c mp cp p"
proof -
  let ?M = "length mcs" and ?C = "length ccs"
  from fb have len: "length m2c = ?M"
    and shape: "trailing mp = trailing cp" and wf: "well_formed cp"
    and src: "list_all (\<lambda>c. c \<ge> 0 \<longrightarrow> (nat c + 1) * stride \<le> tensor_len cp) m2c"
    and dst: "?M * stride \<le> tensor_len mp"
    and bg: "tensor_len mp > ?M * stride \<Longrightarrow>
               (?M + 1) * stride \<le> tensor_len mp \<and> (?C + 1) * stride \<le> tensor_len cp"
    by (simp_all add: full_blocks_def)
  from dst len have room: "(0 + length m2c) * stride \<le> tensor_len mp" by simp
  from copy_matched_spec [OF src room shape wf] obtain p0 where
    run0: "copy_matched stride cp mp 0 m2c = Inr p0"
    and len0: "tensor_len p0 = tensor_len mp"
    and tr0: "trailing p0 = trailing mp"
    and hit: "\<And>j. j < length m2c \<Longrightarrow> m2c ! j \<ge> 0 \<Longrightarrow>
        block stride p0 (0 + j) = block stride cp (nat (m2c ! j))"
    and miss: "\<And>j. j < length m2c \<Longrightarrow> m2c ! j < 0 \<Longrightarrow>
        block stride p0 (0 + j) = block stride mp (0 + j)"
    by blast
  show ?thesis
  proof (cases "tensor_len mp > ?M * stride")
    case False
    then have run: "mix_weights stride mcs ccs m2c mp cp = Inr p0"
      using run0 len0 by (simp add: mix_weights_def)
    have "remapped stride ?M ?C m2c mp cp p0"
      using False len0 tr0 len hit miss
      by (auto simp add: remapped_def list_all_iff Let_def)
    with run show ?thesis by blast
  next
    case True
    from bg [OF True] len0 have d: "(?M + 1) * stride \<le> tensor_len p0"
      and s: "(?C + 1) * stride \<le> tensor_len cp" by simp_all
    have shape0: "trailing (block stride cp ?C) = trailing p0"
      using tr0 shape by (simp add: trailing_block)
    from copy_block [OF d length_block [OF s] shape0 well_formed_block [OF wf]]
    obtain p where
      runb: "slice_copy p0 (?M * stride) ((?M + 1) * stride) (block stride cp ?C) = Inr p"
      and lenp: "tensor_len p = tensor_len p0"
      and trp: "trailing p = trailing p0"
      and same: "block stride p ?M = block stride cp ?C"
      and other: "\<And>k. k \<noteq> ?M \<Longrightarrow> block stride p k = block stride p0 k"
      by blast
    have run: "mix_weights stride mcs ccs m2c mp cp = Inr p"
      using True run0 len0 runb by (simp add: mix_weights_def block_def)
    have "remapped stride ?M ?C m2c mp cp p"
      using True len0 lenp tr0 trp len hit miss same other
      by (auto simp add: remapped_def list_all_iff Let_def)
    with run show ?thesis by blast
  qed
qed

lemma mix_params_spec:
  assumes "distinct (map fst ps)"
    and "\<forall>(n, s) \<in> set ps. \<forall>mp cp.
           model_dict n = Some mp \<longrightarrow> chkpt_dict (prefix @ n) = Some cp \<longrightarrow>
           full_blocks s (length mcs) (length ccs) m2c mp cp"
  shows "\<exists>d'. mix_params mcs ccs m2c model_dict prefix ps chkpt_dict = (d', None) \<and>
           (\<forall>(n, s) \<in> set ps. \<forall>mp cp.
              model_dict n = Some mp \<longrightarrow> chkpt_dict (prefix @ n) = Some cp \<longrightarrow>
              (\<exists>p. d' (prefix @ n) = Some p \<and>
                 remapped s (length mcs) (length ccs) m2c mp cp p)) \<and>
           (\<forall>k. (\<forall>(n, s) \<in> set ps. k = prefix @ n \<longrightarrow>
                   model_dict n = None \<or> chkpt_dict k = None) \<longrightarrow>
                d' k = chkpt_dict k)"
  using assms
proof (induction ps arbitrary: chkpt_dict)
  case Nil
  then show ?case by simp
next
  case (Cons a ps)
  obtain n s where a: "a = (n, s)" by (cases a)
  from Cons.prems(1) a have fresh: "n \<notin> fst ` set ps" and dist: "distinct (map fst ps)"
    by simp_all
  show ?case
  proof (cases "\<exists>mp cp. model_dict n = Some mp \<and> chkpt_dict (prefix @ n) = Some cp")
    case False
    then have skip: "mix_params mcs ccs m2c model_dict prefix (a # ps) chkpt_dict =
        mix_params mcs ccs m2c model_dict prefix ps chkpt_dict"
      by (auto simp add: a Let_def split: option.splits)
    have "\<forall>(n, s) \<in> set ps. \<forall>mp cp.
           model_dict n = Some mp \<longrightarrow> chkpt_dict (prefix @ n) = Some cp \<longrightarrow>
           full_blocks s (length mcs) (length ccs) m2c mp cp"
      using Cons.prems(2) by simp
    from Cons.IH [OF dist this] obtain d' where
      d: "mix_params mcs ccs m2c model_dict prefix ps chkpt_dict = (d', None)"
      and hitd: "\<forall>(n, s) \<in> set ps. \<forall>mp cp.
              model_dict n = Some mp \<longrightarrow> chkpt_dict (prefix @ n) = Some cp \<longrightarrow>
              (\<exists>p. d' (prefix @ n) = Some p \<and>
                 remapped s (length mcs) (length ccs) m2c mp cp p)"
      and keep: "\<forall>k. (\<forall>(n, s) \<in> set ps. k = prefix @ n \<longrightarrow>
                   model_dict n = None \<or> chkpt_dict k = None) \<longrightarrow>
                d' k = chkpt_dict k"
      by blast
    have 1: "\<forall>(n, s) \<in> set (a # ps). \<forall>mp cp.
              model_dict n = Some mp \<longrightarrow> chkpt_dict (prefix @ n) = Some cp \<longrightarrow>
              (\<exists>p. d' (prefix @ n) = Some p \<and>
                 remapped s (length mcs) (length ccs) m2c mp cp p)"
      using hitd False by (auto simp add: a)
    have 2: "\<forall>k. (\<forall>(n, s) \<in> set (a # ps). k = prefix @ n \<longrightarrow>
                   model_dict n = None \<or> chkpt_dict k = None) \<longrightarrow>
                d' k = chkpt_dict k"
      using keep by (auto simp add: a)
    show ?thesis
      by (rule exI [of _ d']) (intro conjI skip [THEN trans] d 1 2)
  next
    case True
    then obtain mp cp where mp: "model_dict n = Some mp"
      and cp: "chkpt_dict (prefix @ n) = Some cp" by blast
    from Cons.prems(2) mp cp have "full_blocks s (length mcs) (length ccs) m2c mp cp"
      by (simp add: a)
    from mix_weights_remapped [OF this] obtain p where
      run: "mix_weights s mcs ccs m2c mp cp = Inr p"
      and rem: "remapped s (length mcs) (length ccs) m2c mp cp p" by blast
    let ?d = "chkpt_dict(prefix @ n \<mapsto> p)"
    have step: "mix_params mcs ccs m2c model_dict prefix (a # ps) chkpt_dict =
        mix_params mcs ccs m2c model_dict prefix ps ?d"
      using mp cp run by (simp add: a)
    have ne: "n' \<noteq> n" if "(n', s') \<in> set ps" for n' s'
      using that fresh by force
    have "\<forall>(n, s) \<in> set ps. \<forall>mp cp.
           model_dict n = Some mp \<longrightarrow> ?d (prefix @ n) = Some cp \<longrightarrow>
           full_blocks s (length mcs) (length ccs) m2c mp cp"
      using Cons.prems(2) ne by auto
    from Cons.IH [OF dist this] obtain d' where
      d: "mix_params mcs ccs m2c model_dict prefix ps ?d = (d', None)"
      and hitd: "\<forall>(n, s) \<in> set ps. \<forall>mp cp.
              model_dict n = Some mp \<longrightarrow> ?d (prefix @ n) = Some cp \<longrightarrow>
              (\<exists>p. d' (prefix @ n) = Some p \<and>
                 remapped s (length mcs) (length ccs) m2c mp cp p)"
      and keep: "\<forall>k. (\<forall>(n, s) \<in> set ps. k = prefix @ n \<longrightarrow>
                   model_dict n = None \<or> ?d k = None) \<longrightarrow>
                d' k = ?d k"
      by blast
    have first: "d' (prefix @ n) = Some p"
    proof -
      have "\<forall>(n', s) \<in> set ps. prefix @ n = prefix @ n' \<longrightarrow>
              model_dict n' = None \<or> ?d (prefix @ n) = None"
        using fresh by force
      with keep have "d' (prefix @ n) = ?d (prefix @ n)" by blast
      then show ?thesis by simp
    qed
    have 1: "\<forall>(n, s) \<in> set (a # ps). \<forall>mp cp.
              model_dict n = Some mp \<longrightarrow> chkpt_dict (prefix @ n) = Some cp \<longrightarrow>
              (\<exists>p. d' (prefix @ n) = Some p \<and>
                 remapped s (length mcs) (length ccs) m2c mp cp p)"
      using hitd ne first rem mp cp by (auto simp add: a)
    have 2: "d' k = chkpt_dict k"
      if k: "\<forall>(n, s) \<in> set (a # ps). k = prefix @ n \<longrightarrow>
                   model_dict n = None \<or> chkpt_dict k = None" for k
    proof -
      from k mp cp have ne: "k \<noteq> prefix @ n" by (auto simp add: a)
      with k have "\<forall>(n, s) \<in> set ps. k = prefix @ n \<longrightarrow>
                   model_dict n = None \<or> ?d k = None"
        by (auto simp add: a)
      with keep have "d' k = ?d k" by blast
      with ne show ?thesis by simp
    qed
    from 2 have 2: "\<forall>k. (\<forall>(n, s) \<in> set (a # ps). k = prefix @ n \<longrightarrow>
                   model_dict n = None \<or> chkpt_dict k = None) \<longrightarrow>
                d' k = chkpt_dict k" by (intro allI impI)
    show ?thesis
      by (rule exI [of _ d']) (intro conjI step [THEN trans] d 1 2)
  qed
qed

text \<open>
  C1 (as amended). For each parameter of \<open>param_strides\<close> present in both dictionaries,
  let the model's and the checkpoint's tensor have the same trailing shape and let every
  slice the hook reads or writes be a full block (\<open>full_blocks\<close>).
  Then the hook returns without raising, and in the resulting checkpoint dictionary each
  such parameter has the shape of the model's parameter where, for every model class
  index \<open>m\<close> matched to \<open>c \<ge> 0\<close>, block \<open>m\<close> is block \<open>c\<close> of the original checkpoint
  parameter; blocks of unmatched classes keep the model's values; and when the model's
  parameter has more than \<open>len(model_classes) * stride\<close> rows, block \<open>len(model_classes)\<close>
  is the checkpoint's block \<open>len(chkpt_classes)\<close>. Every other key of the checkpoint
  dictionary (a parameter absent from either dictionary or not listed in
  \<open>param_strides\<close>) keeps its entry.
\<close>

theorem load_state_dict_pre_hook_remaps:
  assumes "\<forall>(n, s) \<in> set param_strides. \<forall>mp cp.
             model_dict n = Some mp \<longrightarrow> chkpt_dict (prefix @ n) = Some cp \<longrightarrow>
             full_blocks s (length model_classes) (length chkpt_classes)
               (mcn model_classes chkpt_classes) mp cp"
  shows "\<exists>d'. load_state_dict_pre_hook mcn model_dict model_classes chkpt_classes
                 chkpt_dict prefix = (d', None) \<and>
           (\<forall>(n, s) \<in> set param_strides. \<forall>mp cp.
              model_dict n = Some mp \<longrightarrow> chkpt_dict (prefix @ n) = Some cp \<longrightarrow>
              (\<exists>p. d' (prefix @ n) = Some p \<and>
                 remapped s (length model_classes) (length chkpt_classes)
                   (mcn model_classes chkpt_classes) mp cp p)) \<and>
           (\<forall>k. (\<forall>(n, s) \<in> set param_strides. k = prefix @ n \<longrightarrow>
                   model_dict n = None \<or> chkpt_dict k = None) \<longrightarrow>
                d' k = chkpt_dict k)"
proof -
  have "distinct (map fst param_strides)"
    by (simp add: param_strides_def)
  from mix_params_spec [OF this assms] show ?thesis
    by (simp only: load_state_dict_pre_hook_def Let_def)
qed

theorem load_state_dict_pre_hook_remaps_witness:
  "full_blocks 1 (length [''cat'', ''dog'']) (length [''dog'', ''bird'', ''cat''])
     (map_class_names [''cat'', ''dog''] [''dog'', ''bird'', ''cat''])
     (vector [10, 20, 30 :: nat]) (vector [1, 2, 3, 4]) \<and>
   full_blocks 1 (length [''cat'', ''dog'']) (length [''dog'', ''bird'', ''cat''])
     (map_class_names [''cat'', ''dog''] [''dog'', ''bird'', ''cat''])
     (matrix 2 [[10, 11], [20, 21], [30, 31 :: nat]])
     (matrix 2 [[1, 5], [2, 6], [3, 7], [4, 8]]) \<and>
   (\<exists>d'. load_state_dict_pre_hook map_class_names adapt_model_dict [''cat'', ''dog'']
            [''dog'', ''bird'', ''cat''] adapt_chkpt_dict ''module.'' = (d', None) \<and>
      (\<exists>p. d' ''module.roi_head.bbox_head.fc_cls.bias'' = Some p \<and>
         remapped 1 (length [''cat'', ''dog'']) (length [''dog'', ''bird'', ''cat''])
           (map_class_names [''cat'', ''dog''] [''dog'', ''bird'', ''cat''])
           (vector [10, 20, 30]) (vector [1, 2, 3, 4]) p) \<and>
      (\<exists>p. d' ''module.roi_head.bbox_head.fc_cls.weight'' = Some p \<and>
         remapped 1 (length [''cat'', ''dog'']) (length [''dog'', ''bird'', ''cat''])
           (map_class_names [''cat'', ''dog''] [''dog'', ''bird'', ''cat''])
           (matrix 2 [[10, 11], [20, 21], [30, 31]])
           (matrix 2 [[1, 5], [2, 6], [3, 7], [4, 8]]) p) \<and>
      d' ''module.backbone.conv1.bias'' = Some (vector [7]))"
proof -
  let ?m2c = "map_class_names [''cat'', ''dog''] [''dog'', ''bird'', ''cat'']"
  have fb: "full_blocks 1 (length [''cat'', ''dog'']) (length [''dog'', ''bird'', ''cat''])
      ?m2c (vector [10, 20, 30 :: nat]) (vector [1, 2, 3, 4])"
    by (simp add: full_blocks_def map_class_names_def vector_def well_formed_def
        tensor_len_def)
  have fw: "full_blocks 1 (length [''cat'', ''dog'']) (length [''dog'', ''bird'', ''cat''])
      ?m2c (matrix 2 [[10, 11], [20, 21], [30, 31 :: nat]])
      (matrix 2 [[1, 5], [2, 6], [3, 7], [4, 8]])"
    by (simp add: full_blocks_def map_class_names_def matrix_def well_formed_def
        tensor_len_def)
  have h: "\<forall>(n, s) \<in> set param_strides. \<forall>mp cp.
      adapt_model_dict n = Some mp \<longrightarrow> adapt_chkpt_dict (''module.'' @ n) = Some cp \<longrightarrow>
      full_blocks s (length [''cat'', ''dog'']) (length [''dog'', ''bird'', ''cat''])
        ?m2c mp cp"
    using fb fw by (simp add: param_strides_def adapt_model_dict_def adapt_chkpt_dict_def)
  note inst = load_state_dict_pre_hook_remaps
    [where mcn = map_class_names and model_dict = adapt_model_dict
       and chkpt_dict = adapt_chkpt_dict and prefix = "''module.''"
       and model_classes = "[''cat'', ''dog'']"
       and chkpt_classes = "[''dog'', ''bird'', ''cat'']"]
  from inst [OF h] obtain d' where
    run: "load_state_dict_pre_hook map_class_names adapt_model_dict [''cat'', ''dog'']
            [''dog'', ''bird'', ''cat''] adapt_chkpt_dict ''module.'' = (d', None)"
    and hit: "\<forall>(n, s) \<in> set param_strides. \<forall>mp cp.
         adapt_model_dict n = Some mp \<longrightarrow> adapt_chkpt_dict (''module.'' @ n) = Some cp \<longrightarrow>
         (\<exists>p. d' (''module.'' @ n) = Some p \<and>
            remapped s (length [''cat'', ''dog'']) (length [''dog'', ''bird'', ''cat''])
              ?m2c mp cp p)"
    and keep: "\<forall>k. (\<forall>(n, s) \<in> set param_strides. k = ''module.'' @ n \<longrightarrow>
              adapt_model_dict n = None \<or> adapt_chkpt_dict k = None) \<longrightarrow>
           d' k = adapt_chkpt_dict k"
    by blast
  from hit have 1: "\<exists>p. d' ''module.roi_head.bbox_head.fc_cls.bias'' = Some p \<and>
         remapped 1 (length [''cat'', ''dog'']) (length [''dog'', ''bird'', ''cat''])
           ?m2c (vector [10, 20, 30]) (vector [1, 2, 3, 4]) p"
    by (simp add: param_strides_def adapt_model_dict_def adapt_chkpt_dict_def)
  from hit have 2: "\<exists>p. d' ''module.roi_head.bbox_head.fc_cls.weight'' = Some p \<and>
         remapped 1 (length [''cat'', ''dog'']) (length [''dog'', ''bird'', ''cat''])
           ?m2c (matrix 2 [[10, 11], [20, 21], [30, 31]])
           (matrix 2 [[1, 5], [2, 6], [3, 7], [4, 8]]) p"
    by (simp add: param_strides_def adapt_model_dict_def adapt_chkpt_dict_def)
  have "d' ''module.backbone.conv1.bias'' = adapt_chkpt_dict ''module.backbone.conv1.bias''"
    by (rule keep [rule_format]) (auto simp add: param_strides_def)
  then have 3: "d' ''module.backbone.conv1.bias'' = Some (vector [7])"
    by (simp add: adapt_chkpt_dict_def)
  show ?thesis
    apply (rule conjI, rule fb)
    apply (rule conjI, rule fw)
    apply (rule exI [of _ d'])
    apply (intro conjI run 1 2 3)
    done
qed

text \<open>
  The hook at the concrete input of the witness: cat takes the checkpoint's row 2, dog
  its row 0, the background row the checkpoint's row 3; the other key is untouched.
\<close>

lemma load_state_dict_pre_hook_example:
  "load_state_dict_pre_hook map_class_names adapt_model_dict [''cat'', ''dog'']
     [''dog'', ''bird'', ''cat''] adapt_chkpt_dict ''module.'' =
   (adapt_chkpt_dict
      (''module.roi_head.bbox_head.fc_cls.weight'' \<mapsto> matrix 2 [[3, 7], [1, 5], [4, 8]],
       ''module.roi_head.bbox_head.fc_cls.bias'' \<mapsto> vector [3, 1, 4]), None)"
  by (simp add: load_state_dict_pre_hook_def param_strides_def adapt_model_dict_def
      adapt_chkpt_dict_def map_class_names_def mix_weights_def slice_copy_def rows_def
      tensor_len_def expandable_def vector_def matrix_def chunks_numeral Let_def)

text \<open>
  Tensors of different trailing shapes: the checkpoint's rows have three columns and
  the model's have two, and the first copy raises.
\<close>

lemma load_state_dict_pre_hook_trailing_shape:
  "load_state_dict_pre_hook map_class_names
     [''roi_head.bbox_head.fc_cls.weight'' \<mapsto> matrix 2 [[10, 11], [20, 21], [30, 31 :: nat]]]
     [''cat'', ''dog''] [''dog'', ''cat''] wide_chkpt_dict [] =
   (wide_chkpt_dict,
    Some (RuntimeError ''The size of tensor a must match the size of tensor b''))"
  by (simp add: load_state_dict_pre_hook_def param_strides_def wide_chkpt_dict_def
      map_class_names_def mix_weights_def slice_copy_def rows_def
      tensor_len_def expandable_def matrix_def chunks_numeral Let_def)

text \<open>
  C1 as stated fails: it is claimed for every state dict. The model's classification
  bias has a background row and the checkpoint's has none; the background copy reads an
  empty slice, \<open>copy_\<close> raises, and the checkpoint entry is left as it was, so that
  not even the matched rows are remapped.
\<close>

theorem load_state_dict_pre_hook_counterexample:
  "load_state_dict_pre_hook map_class_names
     [''roi_head.bbox_head.fc_cls.bias'' \<mapsto> vector [10, 20, 30 :: nat]]
     [''cat'', ''dog''] [''dog'', ''cat''] sigmoid_chkpt_dict [] =
   (sigmoid_chkpt_dict,
    Some (RuntimeError ''The size of tensor a must match the size of tensor b'')) \<and>
   sigmoid_chkpt_dict ''roi_head.bbox_head.fc_cls.bias'' = Some (vector [1, 2]) \<and>
   \<not> remapped 1 (length [''cat'', ''dog'']) (length [''dog'', ''cat''])
       (map_class_names [''cat'', ''dog''] [''dog'', ''cat''])
       (vector [10, 20, 30 :: nat]) (vector [1, 2]) (vector [1, 2])"
  by (simp add: load_state_dict_pre_hook_def param_strides_def sigmoid_chkpt_dict_def
      map_class_names_def mix_weights_def slice_copy_def rows_def remapped_def block_def
      tensor_len_def expandable_def vector_def chunks_numeral Let_def)
subsection \<open>Evaluation\<close>

text \<open>
  C9. \<open>evaluate\<close> does the same for every value of \<open>evaluation_metric\<close> as for
  \<open>None\<close>; when \<open>MetricsHelper.compute_f_measure\<close> returns a metric, the performance
  of \<open>output_resultset\<close> becomes the performance of that metric; and \<open>evaluate\<close>
  raises exactly the exception that \<open>compute_f_measure\<close> raises, so that the argument
  never causes an error.
\<close>

theorem evaluate_f_measure:
  "evaluate ext output_resultset evaluation_metric = evaluate ext output_resultset None \<and>
   (\<forall>metric. compute_f_measure ext output_resultset = Inr metric \<longrightarrow>
      evaluate ext output_resultset evaluation_metric =
        (output_resultset\<lparr>performance := get_performance ext metric\<rparr>, None)) \<and>
   (\<forall>e. snd (evaluate ext output_resultset evaluation_metric) = Some e \<longleftrightarrow>
      compute_f_measure ext output_resultset = Inl e)"
  by (auto simp add: evaluate_def split: sum.splits)

theorem evaluate_f_measure_witness:
  "compute_f_measure demo_ext demo_resultset = Inr ''f-measure'' \<and>
   evaluate demo_ext demo_resultset (Some ''mAP'') =
     (demo_resultset\<lparr>performance := ''f-measure''\<rparr>, None)"
proof -
  have h: "compute_f_measure demo_ext demo_resultset = Inr ''f-measure''"
    by (simp add: demo_ext_def)
  have g: "get_performance demo_ext ''f-measure'' = ''f-measure''"
    by (simp add: demo_ext_def)
  from evaluate_f_measure [of demo_ext demo_resultset "Some ''mAP''"] h
  have "evaluate demo_ext demo_resultset (Some ''mAP'') =
     (demo_resultset\<lparr>performance := get_performance demo_ext ''f-measure''\<rparr>, None)"
    by blast
  with h g show ?thesis by simp
qed

subsection \<open>The data loader\<close>

lemma dataset_getitem_nat:
  "i < length dataset \<Longrightarrow> dataset_getitem dataset (int i) = Inr (dataset ! i)"
  by (simp add: dataset_getitem_def Let_def)

text \<open>
  C7. The length of the loader is the length of the dataset. For every index that the
  dataset accepts, every \<open>i\<close> below the length among them, \<open>__getitem__\<close> returns the
  index paired with the annotation scene of the item, and the inputs and the metadata
  that the inferencer's preprocessing returns for the image of the item, when it returns;
  the loader, and the dataset in it, is left as it was.
\<close>

theorem data_loader_adapter:
  "loader_len \<lparr>loader_dataset = dataset, loader_inferencer = inferencer'\<rparr> = length dataset \<and>
   (\<forall>i < length dataset. dataset_getitem dataset (int i) = Inr (dataset ! i)) \<and>
   (\<forall>index item inputs meta.
      dataset_getitem dataset index = Inr item \<longrightarrow>
      preprocess ext (inferencer_model inferencer') (numpy item) = Inr (inputs, meta) \<longrightarrow>
      loader_getitem ext \<lparr>loader_dataset = dataset, loader_inferencer = inferencer'\<rparr> index =
        (\<lparr>loader_dataset = dataset, loader_inferencer = inferencer'\<rparr>,
         Inr ((index, annotation_scene item), inputs, meta)))"
  by (simp add: loader_len_def loader_getitem_def pre_process_def dataset_getitem_nat)

theorem data_loader_adapter_witness:
  "dataset_getitem [demo_item ''a'', demo_item ''b''] 1 = Inr (demo_item ''b'') \<and>
   preprocess demo_ext (inferencer_model demo_inferencer) (numpy (demo_item ''b'')) =
     Inr (''b'', ''meta'') \<and>
   loader_getitem demo_ext
     \<lparr>loader_dataset = [demo_item ''a'', demo_item ''b''], loader_inferencer = demo_inferencer\<rparr> 1 =
     (\<lparr>loader_dataset = [demo_item ''a'', demo_item ''b''], loader_inferencer = demo_inferencer\<rparr>,
      Inr ((1, annotation_scene (demo_item ''b'')), ''b'', ''meta''))"
proof -
  have a: "dataset_getitem [demo_item ''a'', demo_item ''b''] 1 = Inr (demo_item ''b'')"
    by (simp add: dataset_getitem_def)
  have b: "preprocess demo_ext (inferencer_model demo_inferencer) (numpy (demo_item ''b'')) =
     Inr (''b'', ''meta'')"
    by (simp add: demo_ext_def demo_item_def)
  from data_loader_adapter [of "[demo_item ''a'', demo_item ''b'']" demo_inferencer demo_ext] a b
  show ?thesis by blast
qed

subsection \<open>Inference\<close>

text \<open>
  C8 fails on the empty dataset: the loop does not run, and the average time per image
  that line 489 logs is a division by \<open>len(dataset) = 0\<close>, which raises
  \<open>ZeroDivisionError\<close>, so \<open>infer\<close> does not return the dataset.
\<close>

theorem infer_empty_dataset:
  "infer ext self [] inference_parameters = ([], Some ZeroDivisionError)"
  by (simp add: infer_def)

text \<open>
  On every dataset, whether \<open>infer\<close> returns or raises, the dataset keeps its length and
  every item is extended: no annotation and no metadata item is removed or replaced.
\<close>

lemma item_extended_refl: "item_extended item item"
  by (simp add: item_extended_def)

lemma item_extended_trans:
  "item_extended a b \<Longrightarrow> item_extended b c \<Longrightarrow> item_extended a c"
  by (auto simp add: item_extended_def)

lemma append_annotations_extends: "item_extended item (append_annotations ext anns item)"
  by (simp add: item_extended_def append_annotations_def)

lemma append_metadata_item_extends: "item_extended item (append_metadata_item d m item)"
  by (simp add: item_extended_def append_metadata_item_def)

lemma fold_append_metadata_extends:
  "item_extended item (fold (\<lambda>x. append_metadata_item (f x) m) media item)"
proof (induction media arbitrary: item)
  case Nil
  show ?case by (simp add: item_extended_refl)
next
  case (Cons x media)
  have "item_extended item (append_metadata_item (f x) m item)"
    by (rule append_metadata_item_extends)
  from this Cons.IH [of "append_metadata_item (f x) m item"] show ?case
    by (simp add: item_extended_trans)
qed

lemma add_saliency_extends:
  "add_saliency_maps_to_dataset_item ext item sm m labels scored explain process = Inr item'
   \<Longrightarrow> item_extended item item'"
  by (auto simp add: add_saliency_maps_to_dataset_item_def fold_append_metadata_extends
      split: sum.splits)

lemma infer_item_extends:
  assumes "infer_item ext self settings n i item = (item', r)"
  shows "item_extended item item'"
proof -
  obtain cb a p e where s: "settings = (cb, a, p, e)" by (cases settings)
  show ?thesis
  proof (cases "predict ext (inferencer self) (numpy item) ''async''")
    case (Inl err)
    with assms s show ?thesis by (simp add: infer_item_def item_extended_refl)
  next
    case (Inr res)
    obtain scene fv sm where res: "res = (scene, fv, sm)" by (cases res)
    let ?item1 = "append_annotations ext (annotations scene) item"
    let ?item2 = "case fv of None \<Rightarrow> ?item1
      | Some v \<Rightarrow> append_metadata_item
          (TensorEntity ''representation_vector'' (reshape_flat ext v)) (model self) ?item1"
    have 1: "item_extended item ?item1" by (rule append_annotations_extends)
    have "item_extended ?item1 ?item2"
      by (cases fv) (simp_all add: item_extended_refl append_metadata_item_extends)
    with 1 have 2: "item_extended item ?item2" by (rule item_extended_trans)
    from assms s Inr res have "item' = ?item2 \<or> item_extended ?item2 item'"
      by (auto simp add: infer_item_def Let_def add_saliency_extends
          split: sum.splits option.splits if_splits)
    with 2 show ?thesis by (auto intro: item_extended_trans)
  qed
qed

lemma infer_loop_extends:
  "infer_loop ext self settings n i dataset = (dataset', r)
   \<Longrightarrow> list_all2 item_extended dataset dataset'"
proof (induction dataset arbitrary: i dataset' r)
  case Nil
  then show ?case by simp
next
  case (Cons item rest)
  obtain item' r1 where it: "infer_item ext self settings n i item = (item', r1)"
    by (cases "infer_item ext self settings n i item")
  then have ext1: "item_extended item item'" by (rule infer_item_extends)
  show ?case
  proof (cases r1)
    case (Some e)
    with Cons.prems it have "dataset' = item' # rest" by simp
    with ext1 show ?thesis
      by (simp add: list_all2_refl item_extended_refl)
  next
    case None
    obtain rest' r2 where lp: "infer_loop ext self settings n (i + 1) rest = (rest', r2)"
      by (cases "infer_loop ext self settings n (i + 1) rest")
    with Cons.prems it None have "dataset' = item' # rest'" by simp
    with ext1 Cons.IH [OF lp] show ?thesis by simp
  qed
qed

lemma infer_frame:
  assumes "infer ext self dataset inference_parameters = (dataset', r)"
  shows "length dataset' = length dataset \<and> list_all2 item_extended dataset dataset'"
proof -
  obtain d r0 where lp: "infer_loop ext self (infer_settings inference_parameters)
      (length dataset) 1 dataset = (d, r0)"
    by (cases "infer_loop ext self (infer_settings inference_parameters)
      (length dataset) 1 dataset")
  with assms have "dataset' = d"
    by (auto simp add: infer_def Let_def split: option.splits if_splits)
  with infer_loop_extends [OF lp] show ?thesis
    by (simp add: list_all2_lengthD)
qed

subsection \<open>Loading the configuration\<close>

text \<open>
  C2. Let the hyper-parameters flatten to \<open>cfg\<close>. When the task has a model whose
  \<open>config.json\<close> is not empty and parses, and flattening the parsed values and merging
  them into \<open>cfg\<close> succeed, \<open>load_config\<close> returns the merged configuration. When
  the body of the \<open>try\<close> statement raises, be it while the data is loaded (no such
  key), parsed, flattened or merged, \<open>load_config\<close> returns \<open>cfg\<close>. It returns a
  configuration in every case.
\<close>

theorem load_config_merge_or_fallback:
  assumes "flatten_detection_config_groups ext (hparams self) = Inr cfg"
  shows "(\<forall>m d json_dict json_dict' merged.
            model self = Some m \<and> model_adapters m ''config.json'' = Some d \<and> d \<noteq> [] \<and>
            json_loads ext d = Inr json_dict \<and>
            flatten_config_values ext json_dict = Inr json_dict' \<and>
            merge_a_into_b ext json_dict' cfg = Inr merged \<longrightarrow>
            load_config ext self = Inr merged) \<and>
         (\<forall>e. merge_config_json ext (model self) cfg = Inl e \<longrightarrow>
            load_config ext self = Inr cfg) \<and>
         (\<forall>m d e. model self = Some m \<and> model_adapters m ''config.json'' = Some d \<and> d \<noteq> [] \<and>
            json_loads ext d = Inl e \<longrightarrow> load_config ext self = Inr cfg) \<and>
         (\<forall>m d json_dict e. model self = Some m \<and> model_adapters m ''config.json'' = Some d \<and>
            d \<noteq> [] \<and> json_loads ext d = Inr json_dict \<and>
            flatten_config_values ext json_dict = Inl e \<longrightarrow> load_config ext self = Inr cfg) \<and>
         (\<forall>m d json_dict json_dict' e. model self = Some m \<and>
            model_adapters m ''config.json'' = Some d \<and> d \<noteq> [] \<and>
            json_loads ext d = Inr json_dict \<and>
            flatten_config_values ext json_dict = Inr json_dict' \<and>
            merge_a_into_b ext json_dict' cfg = Inl e \<longrightarrow> load_config ext self = Inr cfg) \<and>
         (\<forall>m. model self = Some m \<and> model_adapters m ''config.json'' = None \<longrightarrow>
            load_config ext self = Inr cfg) \<and>
         (\<exists>c. load_config ext self = Inr c)"
  using assms
  by (auto simp add: load_config_def merge_config_json_def get_data_def split: sum.splits)

theorem load_config_merge_or_fallback_witness:
  "flatten_detection_config_groups demo_ext (hparams demo_task) =
     Inr \<lparr>tiling_parameters = demo_tiling, other_groups = ''learning parameters''\<rparr> \<and>
   load_config demo_ext demo_task =
     Inr \<lparr>tiling_parameters = demo_tiling, other_groups = ''{}''\<rparr> \<and>
   load_config demo_ext
     (demo_task\<lparr>model := Some (set_data ''config.json'' ''?'' demo_model)\<rparr>) =
     Inr \<lparr>tiling_parameters = demo_tiling, other_groups = ''learning parameters''\<rparr>"
proof -
  let ?cfg = "\<lparr>tiling_parameters = demo_tiling, other_groups = ''learning parameters''\<rparr>"
  let ?bad = "demo_task\<lparr>model := Some (set_data ''config.json'' ''?'' demo_model)\<rparr>"
  have f: "flatten_detection_config_groups demo_ext (hparams demo_task) = Inr ?cfg"
    by (simp add: demo_ext_def demo_task_def hparams_def demo_hparams_def)
  have f': "flatten_detection_config_groups demo_ext (hparams ?bad) = Inr ?cfg"
    by (simp add: demo_ext_def demo_task_def hparams_def demo_hparams_def)
  have good: "model demo_task = Some demo_model \<and>
      model_adapters demo_model ''config.json'' = Some ''{}'' \<and> ''{}'' \<noteq> [] \<and>
      json_loads demo_ext ''{}'' = Inr ''{}'' \<and>
      flatten_config_values demo_ext ''{}'' = Inr ''{}'' \<and>
      merge_a_into_b demo_ext ''{}'' ?cfg =
        Inr \<lparr>tiling_parameters = demo_tiling, other_groups = ''{}''\<rparr>"
    by (simp add: demo_ext_def demo_task_def demo_model_def)
  have bad: "model ?bad = Some (set_data ''config.json'' ''?'' demo_model) \<and>
      model_adapters (set_data ''config.json'' ''?'' demo_model) ''config.json'' = Some ''?'' \<and>
      ''?'' \<noteq> [] \<and> json_loads demo_ext ''?'' = Inl (LibraryError ''JSONDecodeError'')"
    by (simp add: demo_ext_def demo_task_def set_data_def)
  from load_config_merge_or_fallback [OF f] good
  have 1: "load_config demo_ext demo_task =
      Inr \<lparr>tiling_parameters = demo_tiling, other_groups = ''{}''\<rparr>"
    by blast
  from load_config_merge_or_fallback [OF f'] bad
  have 2: "load_config demo_ext ?bad = Inr ?cfg"
    by blast
  from f 1 2 show ?thesis by blast
qed

subsection \<open>float32 buffers\<close>

lemma length_float32_tobytes: "length (float32_tobytes w) = 4"
  by (simp add: float32_tobytes_def)

lemma of_char_char_of_unat:
  "(of_char (char_of (unat x)) :: 32 word) = take_bit 8 x"
proof -
  have "(of_char (char_of (unat x)) :: 32 word) = of_nat (of_char (char_of (unat x)))"
    by (simp only: of_nat_of_char)
  also have "(of_char (char_of (unat x)) :: nat) = take_bit 8 (unat x)"
    by (simp add: take_bit_eq_mod)
  also have "take_bit 8 (unat x) = unat (take_bit 8 x)"
    by (simp add: unsigned_take_bit_eq)
  finally show ?thesis by simp
qed

lemma join_bytes:
  fixes w :: "32 word"
  shows "take_bit 8 w OR push_bit 8 (take_bit 8 (drop_bit 8 w))
           OR push_bit 16 (take_bit 8 (drop_bit 16 w))
           OR push_bit 24 (take_bit 8 (drop_bit 24 w)) = w"
proof (rule bit_word_eqI)
  fix n :: nat
  assume "n < LENGTH(32)"
  then have n: "n < 32" by simp
  consider "n < 8" | "8 \<le> n" "n < 16" | "16 \<le> n" "n < 24" | "24 \<le> n" "n < 32"
    using n by linarith
  then show "bit (take_bit 8 w OR push_bit 8 (take_bit 8 (drop_bit 8 w))
           OR push_bit 16 (take_bit 8 (drop_bit 16 w))
           OR push_bit 24 (take_bit 8 (drop_bit 24 w))) n = bit w n"
    by cases (auto simp add: bit_simps)
qed

lemma float32_roundtrip: "float32_frombuffer0 (float32_tobytes w) = Inr w"
  by (simp add: float32_frombuffer0_def float32_tobytes_def of_char_char_of_unat join_bytes)

subsection \<open>Post-training quantization\<close>

lemma read_ir_quantized:
  assumes "model_adapters m ''openvino.xml'' = Some xml"
    and "model_adapters m ''openvino.bin'' = Some bin_data"
    and "load_model ext xml bin_data = Inr graph"
    and "get_nodes_by_type ext graph [''FakeQuantize''] \<noteq> []"
  shows "read_ir ext m = Inl (RuntimeError ''Model is already optimized by POT'')"
  using assms by (simp add: read_ir_def get_data_def)

text \<open>
  C3. \<open>optimize\<close> raises \<open>ValueError\<close> for every optimization type other than
  \<open>POT\<close>; for \<open>POT\<close> it raises \<open>RuntimeError\<close> when the task has no model, and
  \<open>RuntimeError\<close> with the message that the model is already optimized when the graph
  loaded from the model's IR holds a \<open>FakeQuantize\<close> node. In each case the task and
  \<open>output_model\<close> are left as they were.
\<close>

theorem optimize_preconditions:
  "(optimization_type' \<noteq> POT \<longrightarrow>
      optimize ext self optimization_type' dataset output_model optimization_parameters =
        (self, output_model,
         Some (ValueError ''POT is the only supported optimization type for OpenVino models''))) \<and>
   (model self = None \<longrightarrow>
      optimize ext self POT dataset output_model optimization_parameters =
        (self, output_model, Some (RuntimeError ''Optimize failed, model is None''))) \<and>
   (\<forall>m xml bin_data graph.
      model self = Some m \<and> model_adapters m ''openvino.xml'' = Some xml \<and>
      model_adapters m ''openvino.bin'' = Some bin_data \<and>
      load_model ext xml bin_data = Inr graph \<and>
      get_nodes_by_type ext graph [''FakeQuantize''] \<noteq> [] \<longrightarrow>
      optimize ext self POT dataset output_model optimization_parameters =
        (self, output_model, Some (RuntimeError ''Model is already optimized by POT'')))"
proof (intro conjI allI impI)
  assume "optimization_type' \<noteq> POT"
  then show "optimize ext self optimization_type' dataset output_model optimization_parameters =
        (self, output_model,
         Some (ValueError ''POT is the only supported optimization type for OpenVino models''))"
    by (simp add: optimize_def)
next
  assume "model self = None"
  then show "optimize ext self POT dataset output_model optimization_parameters =
        (self, output_model, Some (RuntimeError ''Optimize failed, model is None''))"
    by (simp add: optimize_def)
next
  fix m xml bin_data graph
  assume h: "model self = Some m \<and> model_adapters m ''openvino.xml'' = Some xml \<and>
      model_adapters m ''openvino.bin'' = Some bin_data \<and>
      load_model ext xml bin_data = Inr graph \<and>
      get_nodes_by_type ext graph [''FakeQuantize''] \<noteq> []"
  then have "read_ir ext m = Inl (RuntimeError ''Model is already optimized by POT'')"
    by (simp add: read_ir_quantized)
  with h show "optimize ext self POT dataset output_model optimization_parameters =
        (self, output_model, Some (RuntimeError ''Model is already optimized by POT''))"
    by (simp add: optimize_def Let_def)
qed

theorem optimize_preconditions_witness:
  "optimize demo_ext demo_task NNCF [demo_item ''a''] demo_output_model None =
     (demo_task, demo_output_model,
      Some (ValueError ''POT is the only supported optimization type for OpenVino models'')) \<and>
   optimize demo_ext (demo_task\<lparr>model := None\<rparr>) POT [demo_item ''a''] demo_output_model None =
     (demo_task\<lparr>model := None\<rparr>, demo_output_model,
      Some (RuntimeError ''Optimize failed, model is None'')) \<and>
   get_nodes_by_type demo_ext ''quantized bin'' [''FakeQuantize''] \<noteq> [] \<and>
   optimize demo_ext
     (demo_task\<lparr>model := Some (set_data ''openvino.xml'' ''quantized '' demo_model)\<rparr>)
     POT [demo_item ''a''] demo_output_model None =
     (demo_task\<lparr>model := Some (set_data ''openvino.xml'' ''quantized '' demo_model)\<rparr>,
      demo_output_model, Some (RuntimeError ''Model is already optimized by POT''))"
proof -
  let ?q = "set_data ''openvino.xml'' ''quantized '' demo_model"
  let ?t = "demo_task\<lparr>model := Some ?q\<rparr>"
  have a: "NNCF \<noteq> POT" by simp
  have b: "model (demo_task\<lparr>model := None\<rparr>) = None" by simp
  have n: "get_nodes_by_type demo_ext ''quantized bin'' [''FakeQuantize''] \<noteq> []"
    by (simp add: demo_ext_def)
  have c: "model ?t = Some ?q \<and> model_adapters ?q ''openvino.xml'' = Some ''quantized '' \<and>
      model_adapters ?q ''openvino.bin'' = Some ''bin'' \<and>
      load_model demo_ext ''quantized '' ''bin'' = Inr ''quantized bin'' \<and>
      get_nodes_by_type demo_ext ''quantized bin'' [''FakeQuantize''] \<noteq> []"
    using n by (simp add: set_data_def demo_model_def demo_ext_def)
  from optimize_preconditions
    [of NNCF demo_ext demo_task "[demo_item ''a'']" demo_output_model None] a
  have 1: "optimize demo_ext demo_task NNCF [demo_item ''a''] demo_output_model None =
     (demo_task, demo_output_model,
      Some (ValueError ''POT is the only supported optimization type for OpenVino models''))"
    by blast
  from optimize_preconditions
    [of POT demo_ext "demo_task\<lparr>model := None\<rparr>" "[demo_item ''a'']" demo_output_model None] b
  have 2: "optimize demo_ext (demo_task\<lparr>model := None\<rparr>) POT [demo_item ''a'']
      demo_output_model None =
     (demo_task\<lparr>model := None\<rparr>, demo_output_model,
      Some (RuntimeError ''Optimize failed, model is None''))"
    by blast
  from optimize_preconditions
    [of POT demo_ext ?t "[demo_item ''a'']" demo_output_model None] c
  have 3: "optimize demo_ext ?t POT [demo_item ''a''] demo_output_model None =
     (?t, demo_output_model, Some (RuntimeError ''Model is already optimized by POT''))"
    by blast
  from 1 2 n 3 show ?thesis by blast
qed


subsection \<open>The outputs of post-training quantization\<close>

lemma load_inferencer_frame:
  assumes "load_inferencer ext self = (self', r)"
  shows "model self' = model self \<and> task_environment self' = task_environment self \<and>
         task_type self' = task_type self \<and> config self' = config self \<and>
         inferencer self' = inferencer self"
  using assms
  by (auto simp add: load_inferencer_def Let_def split: option.splits sum.splits)

lemma save_outputs_done:
  assumes "save_outputs ext self compressed output_model = (output_model', None)"
  shows "\<exists>xml bin_data schema_bytes config_bytes.
           save_model ext compressed = Inr (xml, bin_data) \<and>
           label_schema_to_bytes ext (label_schema (task_environment self)) = Inr schema_bytes \<and>
           config_to_bytes ext (hparams self) = Inr config_bytes \<and>
           model_adapters output_model' =
             (model_adapters output_model)
               (''openvino.xml'' \<mapsto> xml, ''openvino.bin'' \<mapsto> bin_data,
                ''confidence_threshold'' \<mapsto>
                   float32_tobytes (to_float32 ext (confidence_threshold self)),
                ''label_schema.json'' \<mapsto> schema_bytes, ''config.json'' \<mapsto> config_bytes) \<and>
           model_format output_model' = OPENVINO \<and>
           optimization_type output_model' = MO_POT \<and>
           optimization_methods output_model' = [QUANTIZATION] \<and>
           precision output_model' = [INT8] \<and>
           exportable_code output_model' = exportable_code output_model"
  using assms
  by (auto simp add: save_outputs_def Let_def set_data_def split: sum.splits prod.splits)

lemma optimize_done:
  assumes "optimize ext self optimization_type' dataset output_model optimization_parameters =
             (self', output_model', None)"
  shows "\<exists>graph compressed reloaded.
           optimization_type' = POT \<and>
           quantize ext self
             \<lparr>loader_dataset = get_subset dataset TRAINING, loader_inferencer = inferencer self\<rparr>
             graph optimization_parameters = Inr compressed \<and>
           save_outputs ext self compressed output_model = (output_model', None) \<and>
           load_inferencer ext (self\<lparr>model := Some output_model'\<rparr>) =
             (reloaded, Inr (inferencer self')) \<and>
           self' = reloaded\<lparr>inferencer := inferencer self'\<rparr>"
  using assms
  by (auto simp add: optimize_def Let_def
      split: if_splits option.splits sum.splits prod.splits) blast

text \<open>
  C6. When \<open>optimize\<close> completes without raising, \<open>output_model\<close> carries the data
  \<open>openvino.xml\<close> and \<open>openvino.bin\<close> that \<open>save_model\<close> wrote for the compressed
  model, \<open>confidence_threshold\<close> (the four bytes of the task's confidence threshold as
  a float32), \<open>label_schema.json\<close> and \<open>config.json\<close>; its format is \<open>OPENVINO\<close>,
  its optimization type \<open>POT\<close>, its optimization methods \<open>[QUANTIZATION]\<close> and its
  precision \<open>[INT8]\<close>. The task's model is \<open>output_model\<close>, and its inferencer is the
  one that \<open>load_inferencer\<close> returns for that model.
\<close>

theorem optimize_postcondition:
  assumes "optimize ext self optimization_type' dataset output_model optimization_parameters =
             (self', output_model', None)"
  shows "\<exists>compressed xml bin_data schema_bytes config_bytes reloaded.
           save_model ext compressed = Inr (xml, bin_data) \<and>
           label_schema_to_bytes ext (label_schema (task_environment self)) = Inr schema_bytes \<and>
           config_to_bytes ext (hparams self) = Inr config_bytes \<and>
           get_data output_model' ''openvino.xml'' = Inr xml \<and>
           get_data output_model' ''openvino.bin'' = Inr bin_data \<and>
           get_data output_model' ''confidence_threshold'' =
             Inr (float32_tobytes (to_float32 ext (confidence_threshold self))) \<and>
           length (float32_tobytes (to_float32 ext (confidence_threshold self))) = 4 \<and>
           get_data output_model' ''label_schema.json'' = Inr schema_bytes \<and>
           get_data output_model' ''config.json'' = Inr config_bytes \<and>
           model_format output_model' = OPENVINO \<and>
           optimization_type output_model' = MO_POT \<and>
           optimization_methods output_model' = [QUANTIZATION] \<and>
           precision output_model' = [INT8] \<and>
           model self' = Some output_model' \<and>
           load_inferencer ext (self\<lparr>model := Some output_model'\<rparr>) =
             (reloaded, Inr (inferencer self')) \<and>
           self' = reloaded\<lparr>inferencer := inferencer self'\<rparr>"
proof -
  from optimize_done [OF assms] obtain graph compressed reloaded where
    saved: "save_outputs ext self compressed output_model = (output_model', None)"
    and loaded: "load_inferencer ext (self\<lparr>model := Some output_model'\<rparr>) =
             (reloaded, Inr (inferencer self'))"
    and self': "self' = reloaded\<lparr>inferencer := inferencer self'\<rparr>"
    by blast
  from save_outputs_done [OF saved] obtain xml bin_data schema_bytes config_bytes where
    s: "save_model ext compressed = Inr (xml, bin_data)"
    and l: "label_schema_to_bytes ext (label_schema (task_environment self)) = Inr schema_bytes"
    and c: "config_to_bytes ext (hparams self) = Inr config_bytes"
    and d: "model_adapters output_model' =
             (model_adapters output_model)
               (''openvino.xml'' \<mapsto> xml, ''openvino.bin'' \<mapsto> bin_data,
                ''confidence_threshold'' \<mapsto>
                   float32_tobytes (to_float32 ext (confidence_threshold self)),
                ''label_schema.json'' \<mapsto> schema_bytes, ''config.json'' \<mapsto> config_bytes)"
    and a: "model_format output_model' = OPENVINO" "optimization_type output_model' = MO_POT"
      "optimization_methods output_model' = [QUANTIZATION]" "precision output_model' = [INT8]"
    by blast
  have g1: "get_data output_model' ''openvino.xml'' = Inr xml"
    by (simp add: get_data_def d)
  have g2: "get_data output_model' ''openvino.bin'' = Inr bin_data"
    by (simp add: get_data_def d)
  have g3: "get_data output_model' ''confidence_threshold'' =
             Inr (float32_tobytes (to_float32 ext (confidence_threshold self)))"
    by (simp add: get_data_def d)
  have g4: "get_data output_model' ''label_schema.json'' = Inr schema_bytes"
    by (simp add: get_data_def d)
  have g5: "get_data output_model' ''config.json'' = Inr config_bytes"
    by (simp add: get_data_def d)
  from load_inferencer_frame [OF loaded] have "model reloaded = Some output_model'"
    by simp
  with self' have m: "model self' = Some output_model'"
    by (metis OpenVINODetectionTask.select_convs(2) OpenVINODetectionTask.surjective
        OpenVINODetectionTask.update_convs(6))
  note len = length_float32_tobytes [of "to_float32 ext (confidence_threshold self)"]
  from s l c g1 g2 g3 len g4 g5 a m loaded self' show ?thesis by blast
qed


lemma demo_optimize_completes:
  "snd (snd (optimize demo_ext demo_plain_task POT [demo_item ''a''] demo_output_model None)) = None"
  by (simp add: optimize_def read_ir_def quantize_def notify_def save_outputs_def
      load_inferencer_def get_data_def set_data_def float32_roundtrip Let_def
      inferencer_of_task_type_def wrap_tiling_def demo_plain_task_def demo_task_def
      demo_tiling_def demo_model_def demo_output_model_def
      OpenVINOMaskInferencer_def new_inferencer_def demo_ext_def hparams_def)

theorem optimize_postcondition_witness:
  "snd (snd (optimize demo_ext demo_plain_task POT [demo_item ''a''] demo_output_model None)) = None \<and>
   get_data (fst (snd (optimize demo_ext demo_plain_task POT [demo_item ''a'']
      demo_output_model None))) ''openvino.xml'' = Inr ''int8 xml'' \<and>
   precision (fst (snd (optimize demo_ext demo_plain_task POT [demo_item ''a'']
      demo_output_model None))) = [INT8] \<and>
   model (fst (optimize demo_ext demo_plain_task POT [demo_item ''a'']
      demo_output_model None)) =
     Some (fst (snd (optimize demo_ext demo_plain_task POT [demo_item ''a'']
      demo_output_model None)))"
proof -
  let ?r = "optimize demo_ext demo_plain_task POT [demo_item ''a''] demo_output_model None"
  obtain self' om' r where r: "?r = (self', om', r)" by (cases ?r)
  with demo_optimize_completes have fin: "?r = (self', om', None)" by simp
  from optimize_postcondition [OF fin] obtain compressed xml bin_data where
    s: "save_model demo_ext compressed = Inr (xml, bin_data)"
    and x: "get_data om' ''openvino.xml'' = Inr xml"
    and p: "precision om' = [INT8]"
    and m: "model self' = Some om'"
    by blast
  from s have "xml = ''int8 xml''" by (simp add: demo_ext_def)
  with x p m fin demo_optimize_completes show ?thesis by simp
qed

subsection \<open>Loading the inferencer\<close>

lemma matching_inferencer_class:
  assumes "matching_inferencer ext tt hp schema xml bin_data base"
  shows "(tt = DETECTION \<and> inferencer_class base = OpenVINODetectionInferencer_class \<and>
            converter base = DetectionToAnnotationConverter schema) \<or>
         (tt = INSTANCE_SEGMENTATION \<and> inferencer_class base = OpenVINOMaskInferencer_class \<and>
            converter base = MaskToAnnotationConverter schema) \<or>
         (tt = ROTATED_DETECTION \<and>
            inferencer_class base = OpenVINORotatedRectInferencer_class \<and>
            converter base = RotatedRectToAnnotationConverter schema)"
  using assms
  by (auto simp add: matching_inferencer_def OpenVINODetectionInferencer_def
      OpenVINOMaskInferencer_def OpenVINORotatedRectInferencer_def new_inferencer_def Let_def
      split: sum.splits)

lemma inferencer_of_task_type_matching:
  assumes "matching_inferencer ext tt hp schema xml bin_data base"
  shows "inferencer_of_task_type ext tt hp schema xml bin_data = Inr (Some base)"
  using assms
  by (auto simp add: matching_inferencer_def inferencer_of_task_type_def)

lemma wrap_tiling_off:
  "\<not> enable_tiling (tiling_parameters cfg) \<Longrightarrow> wrap_tiling ext cfg m i = Inr i"
  by (simp add: wrap_tiling_def)

lemma wrap_tiling_plain:
  assumes "enable_tiling (tiling_parameters cfg)"
    and "\<not> enable_tile_classifier (tiling_parameters cfg)"
  shows "wrap_tiling ext cfg m (Some base) =
           Inr (Some (tile_wrapper (tiling_parameters cfg) base None))"
  using assms
  by (simp add: wrap_tiling_def OpenVINOTileClassifierWrapper_def tile_wrapper_def)

lemma wrap_tiling_classifier:
  assumes "enable_tiling (tiling_parameters cfg)"
    and "enable_tile_classifier (tiling_parameters cfg)"
    and "model_adapters m ''tile_classifier.xml'' = Some cxml"
    and "model_adapters m ''tile_classifier.bin'' = Some cbin"
    and "OpenvinoAdapter ext (Some cxml) (Some cbin) ''CPU'' 1 = Inr adapter"
    and "Model ext adapter = Inr classifier"
  shows "wrap_tiling ext cfg m (Some base) =
           Inr (Some (tile_wrapper (tiling_parameters cfg) base (Some classifier)))"
  using assms
  by (simp add: wrap_tiling_def get_data_def OpenVINOTileClassifierWrapper_def tile_wrapper_def)

lemma load_inferencer_steps:
  assumes "model self = Some m"
    and "model_adapters m ''confidence_threshold'' = Some ct"
    and "float32_frombuffer0 ct = Inr w"
    and "model_adapters m ''openvino.xml'' = Some xml"
    and "model_adapters m ''openvino.bin'' = Some bin_data"
    and "inferencer_of_task_type ext (task_type self)
           ((hparams self)\<lparr>postprocessing := (postprocessing (hparams self))
              \<lparr>postprocessing_confidence_threshold := of_float32 ext w\<rparr>\<rparr>)
           (label_schema (task_environment self)) xml bin_data = Inr (Some base)"
    and "wrap_tiling ext (config self) m (Some base) = Inr (Some i)"
  shows "load_inferencer ext self = (self\<lparr>confidence_threshold := of_float32 ext w\<rparr>, Inr i)"
  using assms by (simp add: load_inferencer_def get_data_def Let_def)

lemma load_inferencer_other_task_type:
  assumes "model self = Some m"
    and "model_adapters m ''confidence_threshold'' = Some ct"
    and "float32_frombuffer0 ct = Inr w"
    and "model_adapters m ''openvino.xml'' = Some xml"
    and "model_adapters m ''openvino.bin'' = Some bin_data"
    and "task_type self = CLASSIFICATION \<or> task_type self = SEGMENTATION"
    and "\<not> enable_tiling (tiling_parameters (config self))"
  shows "load_inferencer ext self =
           (self\<lparr>confidence_threshold := of_float32 ext w\<rparr>,
            Inl (UnboundLocalError ''inferencer''))"
  using assms
  by (auto simp add: load_inferencer_def get_data_def Let_def inferencer_of_task_type_def
      wrap_tiling_def)


text \<open>
  C5. \<open>load_inferencer\<close> raises \<open>RuntimeError\<close> when the task has no model. With a
  model that carries the confidence threshold and the IR files, and a task type among
  \<open>DETECTION\<close>, \<open>INSTANCE_SEGMENTATION\<close> and \<open>ROTATED_DETECTION\<close> whose inferencer
  can be built, it returns that inferencer when tiling is off; when tiling is on it
  returns an \<open>OpenVINOTileClassifierWrapper\<close> around it with the configured tile size,
  overlap and maximal number, without a tile classifier when \<open>enable_tile_classifier\<close>
  is off, and with the classifier loaded from the model's \<open>tile_classifier.xml\<close> and
  \<open>tile_classifier.bin\<close> when it is on.
\<close>

theorem load_inferencer_by_task_type:
  "(model self = None \<longrightarrow>
      load_inferencer ext self =
        (self, Inl (RuntimeError ''load_inferencer failed, model is None''))) \<and>
   (\<forall>m ct w xml bin_data base.
      model self = Some m \<and> model_adapters m ''confidence_threshold'' = Some ct \<and>
      float32_frombuffer0 ct = Inr w \<and>
      model_adapters m ''openvino.xml'' = Some xml \<and>
      model_adapters m ''openvino.bin'' = Some bin_data \<and>
      matching_inferencer ext (task_type self)
        ((hparams self)\<lparr>postprocessing := (postprocessing (hparams self))
           \<lparr>postprocessing_confidence_threshold := of_float32 ext w\<rparr>\<rparr>)
        (label_schema (task_environment self)) xml bin_data base \<longrightarrow>
      (\<not> enable_tiling (tiling_parameters (config self)) \<longrightarrow>
         load_inferencer ext self =
           (self\<lparr>confidence_threshold := of_float32 ext w\<rparr>, Inr base)) \<and>
      (enable_tiling (tiling_parameters (config self)) \<and>
       \<not> enable_tile_classifier (tiling_parameters (config self)) \<longrightarrow>
         load_inferencer ext self =
           (self\<lparr>confidence_threshold := of_float32 ext w\<rparr>,
            Inr (tile_wrapper (tiling_parameters (config self)) base None))) \<and>
      (\<forall>cxml cbin adapter classifier.
         enable_tiling (tiling_parameters (config self)) \<and>
         enable_tile_classifier (tiling_parameters (config self)) \<and>
         model_adapters m ''tile_classifier.xml'' = Some cxml \<and>
         model_adapters m ''tile_classifier.bin'' = Some cbin \<and>
         OpenvinoAdapter ext (Some cxml) (Some cbin) ''CPU'' 1 = Inr adapter \<and>
         Model ext adapter = Inr classifier \<longrightarrow>
         load_inferencer ext self =
           (self\<lparr>confidence_threshold := of_float32 ext w\<rparr>,
            Inr (tile_wrapper (tiling_parameters (config self)) base (Some classifier)))))"
proof (intro conjI allI impI)
  assume "model self = None"
  then show "load_inferencer ext self =
        (self, Inl (RuntimeError ''load_inferencer failed, model is None''))"
    by (simp add: load_inferencer_def)
next
  fix m ct w xml bin_data base
  let ?hp = "(hparams self)\<lparr>postprocessing := (postprocessing (hparams self))
           \<lparr>postprocessing_confidence_threshold := of_float32 ext w\<rparr>\<rparr>"
  assume h: "model self = Some m \<and> model_adapters m ''confidence_threshold'' = Some ct \<and>
      float32_frombuffer0 ct = Inr w \<and>
      model_adapters m ''openvino.xml'' = Some xml \<and>
      model_adapters m ''openvino.bin'' = Some bin_data \<and>
      matching_inferencer ext (task_type self) ?hp
        (label_schema (task_environment self)) xml bin_data base"
  then have built: "inferencer_of_task_type ext (task_type self) ?hp
      (label_schema (task_environment self)) xml bin_data = Inr (Some base)"
    by (simp add: inferencer_of_task_type_matching)
  note steps = load_inferencer_steps [of self m ct w xml bin_data ext base]
  {
    assume "\<not> enable_tiling (tiling_parameters (config self))"
    then have "wrap_tiling ext (config self) m (Some base) = Inr (Some base)"
      by (rule wrap_tiling_off)
    with h built show "load_inferencer ext self =
           (self\<lparr>confidence_threshold := of_float32 ext w\<rparr>, Inr base)"
      by (simp add: steps)
  next
    assume "enable_tiling (tiling_parameters (config self)) \<and>
       \<not> enable_tile_classifier (tiling_parameters (config self))"
    then have "wrap_tiling ext (config self) m (Some base) =
        Inr (Some (tile_wrapper (tiling_parameters (config self)) base None))"
      by (simp add: wrap_tiling_plain)
    with h built show "load_inferencer ext self =
           (self\<lparr>confidence_threshold := of_float32 ext w\<rparr>,
            Inr (tile_wrapper (tiling_parameters (config self)) base None))"
      by (simp add: steps)
  next
    fix cxml cbin adapter classifier
    assume "enable_tiling (tiling_parameters (config self)) \<and>
         enable_tile_classifier (tiling_parameters (config self)) \<and>
         model_adapters m ''tile_classifier.xml'' = Some cxml \<and>
         model_adapters m ''tile_classifier.bin'' = Some cbin \<and>
         OpenvinoAdapter ext (Some cxml) (Some cbin) ''CPU'' 1 = Inr adapter \<and>
         Model ext adapter = Inr classifier"
    then have "wrap_tiling ext (config self) m (Some base) =
        Inr (Some (tile_wrapper (tiling_parameters (config self)) base (Some classifier)))"
      by (simp add: wrap_tiling_classifier)
    with h built show "load_inferencer ext self =
           (self\<lparr>confidence_threshold := of_float32 ext w\<rparr>,
            Inr (tile_wrapper (tiling_parameters (config self)) base (Some classifier)))"
      by (simp add: steps)
  }
qed

lemma demo_matching:
  "matching_inferencer demo_ext (task_type demo_task)
     ((hparams demo_task)\<lparr>postprocessing := (postprocessing (hparams demo_task))
        \<lparr>postprocessing_confidence_threshold := of_float32 demo_ext 7\<rparr>\<rparr>)
     (label_schema (task_environment demo_task)) ''xml'' ''bin'' demo_inferencer"
  by (simp add: matching_inferencer_def demo_task_def OpenVINOMaskInferencer_def
      new_inferencer_def demo_ext_def demo_inferencer_def hparams_def Let_def)

theorem load_inferencer_by_task_type_witness:
  "load_inferencer demo_ext (demo_task\<lparr>model := None\<rparr>) =
     (demo_task\<lparr>model := None\<rparr>,
      Inl (RuntimeError ''load_inferencer failed, model is None'')) \<and>
   load_inferencer demo_ext demo_task =
     (demo_task, Inr (tile_wrapper demo_tiling demo_inferencer (Some ''adapter'')))"
proof -
  have a: "load_inferencer demo_ext (demo_task\<lparr>model := None\<rparr>) =
     (demo_task\<lparr>model := None\<rparr>,
      Inl (RuntimeError ''load_inferencer failed, model is None''))"
    using load_inferencer_by_task_type [of "demo_task\<lparr>model := None\<rparr>" demo_ext]
    by simp
  have h: "model demo_task = Some demo_model \<and>
      model_adapters demo_model ''confidence_threshold'' = Some (float32_tobytes 7) \<and>
      float32_frombuffer0 (float32_tobytes 7) = Inr 7 \<and>
      model_adapters demo_model ''openvino.xml'' = Some ''xml'' \<and>
      model_adapters demo_model ''openvino.bin'' = Some ''bin''"
    by (simp add: demo_task_def demo_model_def float32_roundtrip)
  have t: "enable_tiling (tiling_parameters (config demo_task)) \<and>
         enable_tile_classifier (tiling_parameters (config demo_task)) \<and>
         model_adapters demo_model ''tile_classifier.xml'' = Some ''cxml'' \<and>
         model_adapters demo_model ''tile_classifier.bin'' = Some ''cbin'' \<and>
         OpenvinoAdapter demo_ext (Some ''cxml'') (Some ''cbin'') ''CPU'' 1 = Inr ''adapter'' \<and>
         Model demo_ext ''adapter'' = Inr ''adapter''"
    by (simp add: demo_task_def demo_model_def demo_tiling_def demo_ext_def)
  have c: "tiling_parameters (config demo_task) = demo_tiling"
    by (simp add: demo_task_def)
  have s: "demo_task\<lparr>confidence_threshold := of_float32 demo_ext 7\<rparr> = demo_task"
    by (simp add: demo_task_def demo_ext_def)
  from load_inferencer_by_task_type [of demo_task demo_ext] h demo_matching t
  have "load_inferencer demo_ext demo_task =
           (demo_task\<lparr>confidence_threshold := of_float32 demo_ext 7\<rparr>,
            Inr (tile_wrapper (tiling_parameters (config demo_task)) demo_inferencer
              (Some ''adapter'')))"
    by blast
  with a c s show ?thesis by simp
qed

subsection \<open>Deployment\<close>

lemma write_wrapper_files_append:
  "write_wrapper_files ext root files arch =
     map_sum id ((@) arch) (write_wrapper_files ext root files [])"
proof (induction files arbitrary: arch)
  case Nil
  show ?case by simp
next
  case (Cons f files)
  show ?case
  proof (cases "split_item1 ''model_wrappers/'' (os_path_join root f)")
    case (Inl e)
    then show ?thesis by (simp add: Let_def)
  next
    case (Inr rel)
    show ?thesis
    proof (cases "read_file ext (os_path_join root f)")
      case None
      with Inr show ?thesis by (simp add: Let_def zip_write_def)
    next
      case (Some d)
      let ?e = "(zip_arcname ext (os_path_join (os_path_join ''python'' ''model_wrappers'') rel), d)"
      have a: "write_wrapper_files ext root (f # files) arch =
          write_wrapper_files ext root files (arch @ [?e])"
        using Inr Some by (simp add: Let_def zip_write_def)
      have b: "write_wrapper_files ext root (f # files) [] =
          write_wrapper_files ext root files [?e]"
        using Inr Some by (simp add: Let_def zip_write_def)
      have h1: "write_wrapper_files ext root files (arch @ [?e]) =
          map_sum id ((@) (arch @ [?e])) (write_wrapper_files ext root files [])"
        by (rule Cons.IH)
      have h2: "write_wrapper_files ext root files [?e] =
          map_sum id ((@) [?e]) (write_wrapper_files ext root files [])"
        by (rule Cons.IH)
      show ?thesis unfolding a b h1 h2
        by (cases "write_wrapper_files ext root files []") simp_all
    qed
  qed
qed

lemma write_wrappers_append:
  "write_wrappers ext dirs arch = map_sum id ((@) arch) (write_wrappers ext dirs [])"
proof (induction dirs arbitrary: arch)
  case Nil
  show ?case by simp
next
  case (Cons dir dirs)
  obtain root files where dir: "dir = (root, files)" by (cases dir)
  note w = write_wrapper_files_append [of ext root files arch]
  show ?case
  proof (cases "write_wrapper_files ext root files []")
    case (Inl e)
    with w show ?thesis by (simp add: dir)
  next
    case (Inr r)
    with w have a: "write_wrappers ext (dir # dirs) arch = write_wrappers ext dirs (arch @ r)"
      by (simp add: dir)
    from Inr have b: "write_wrappers ext (dir # dirs) [] = write_wrappers ext dirs r"
      by (simp add: dir)
    have h1: "write_wrappers ext dirs (arch @ r) =
        map_sum id ((@) (arch @ r)) (write_wrappers ext dirs [])"
      by (rule Cons.IH)
    have h2: "write_wrappers ext dirs r = map_sum id ((@) r) (write_wrappers ext dirs [])"
      by (rule Cons.IH)
    show ?thesis unfolding a b h1 h2
      by (cases "write_wrappers ext dirs []") simp_all
  qed
qed

lemma write_python_files_append:
  "write_python_files ext names arch =
     map_sum id ((@) arch) (write_python_files ext names [])"
proof (induction names arbitrary: arch)
  case Nil
  show ?case by simp
next
  case (Cons name names)
  show ?case
  proof (cases "read_file ext (os_path_join (work_dir ext) name)")
    case None
    then show ?thesis by (simp add: zip_write_def)
  next
    case (Some d)
    let ?e = "(zip_arcname ext (os_path_join ''python'' name), d)"
    have a: "write_python_files ext (name # names) arch =
        write_python_files ext names (arch @ [?e])"
      using Some by (simp add: zip_write_def)
    have b: "write_python_files ext (name # names) [] = write_python_files ext names [?e]"
      using Some by (simp add: zip_write_def)
    have h1: "write_python_files ext names (arch @ [?e]) =
        map_sum id ((@) (arch @ [?e])) (write_python_files ext names [])"
      by (rule Cons.IH)
    have h2: "write_python_files ext names [?e] =
        map_sum id ((@) [?e]) (write_python_files ext names [])"
      by (rule Cons.IH)
    show ?thesis unfolding a b h1 h2
      by (cases "write_python_files ext names []") simp_all
  qed
qed

lemma write_archive_package:
  "write_archive ext cfg m parameters =
     (case write_model_files ext cfg m parameters [] of
        Inl e \<Rightarrow> Inl e
      | Inr arch \<Rightarrow> map_sum id ((@) arch) (package_files ext))"
proof (cases "write_model_files ext cfg m parameters []")
  case (Inl e)
  then show ?thesis by (simp add: write_archive_def)
next
  case (Inr arch)
  let ?names = "[''requirements.txt'', ''LICENSE'', ''README.md'', ''demo.py'']"
  note w = write_wrappers_append [of ext "os_walk ext (model_wrappers_dir ext)" arch]
  show ?thesis
  proof (cases "write_wrappers ext (os_walk ext (model_wrappers_dir ext)) []")
    case (Inl e)
    with Inr w show ?thesis by (simp add: write_archive_def package_files_def)
  next
    case r: (Inr r)
    have h1: "write_python_files ext ?names (arch @ r) =
        map_sum id ((@) (arch @ r)) (write_python_files ext ?names [])"
      by (rule write_python_files_append)
    have h2: "write_python_files ext ?names r =
        map_sum id ((@) r) (write_python_files ext ?names [])"
      by (rule write_python_files_append)
    have a: "write_archive ext cfg m parameters = write_python_files ext ?names (arch @ r)"
      using Inr r w by (simp add: write_archive_def)
    have b: "package_files ext = write_python_files ext ?names r"
      using r by (simp add: package_files_def)
    show ?thesis unfolding a b h1 h2 using Inr
      by (cases "write_python_files ext ?names []") simp_all
  qed
qed

lemma write_model_files_entries:
  assumes "get_data m ''openvino.xml'' = Inr xml"
    and "get_data m ''openvino.bin'' = Inr bin_data"
    and "tile_classifier_data cfg m classifier"
    and "json_dumps ext parameters = Inr js"
  shows "write_model_files ext cfg m parameters [] =
           Inr (model_entries xml bin_data classifier js)"
  using assms
  by (cases classifier)
    (auto simp add: write_model_files_def writestr_def os_path_join_def model_entries_def
      tile_classifier_data_def Let_def)

lemma write_model_files_done:
  assumes "write_model_files ext cfg m parameters [] = Inr arch"
  shows "\<exists>xml bin_data classifier js.
           get_data m ''openvino.xml'' = Inr xml \<and>
           get_data m ''openvino.bin'' = Inr bin_data \<and>
           tile_classifier_data cfg m classifier \<and>
           json_dumps ext parameters = Inr js \<and>
           arch = model_entries xml bin_data classifier js"
proof -
  from assms obtain xml where xml: "get_data m ''openvino.xml'' = Inr xml"
    by (cases "get_data m ''openvino.xml''") (simp_all add: write_model_files_def)
  from assms xml obtain bin_data where bin_data: "get_data m ''openvino.bin'' = Inr bin_data"
    by (cases "get_data m ''openvino.bin''") (simp_all add: write_model_files_def Let_def)
  from assms xml bin_data obtain js where js: "json_dumps ext parameters = Inr js"
    by (cases "json_dumps ext parameters")
      (simp_all add: write_model_files_def Let_def split: sum.splits if_splits)
  have "\<exists>classifier. tile_classifier_data cfg m classifier"
  proof (cases "enable_tiling (tiling_parameters cfg) \<and>
      enable_tile_classifier (tiling_parameters cfg)")
    case False
    then have "tile_classifier_data cfg m None" by (simp add: tile_classifier_data_def)
    then show ?thesis ..
  next
    case True
    with assms xml bin_data obtain cxml cbin where
      "get_data m ''tile_classifier.xml'' = Inr cxml"
      "get_data m ''tile_classifier.bin'' = Inr cbin"
      by (auto simp add: write_model_files_def Let_def split: sum.splits)
    with True have "tile_classifier_data cfg m (Some (cxml, cbin))"
      by (simp add: tile_classifier_data_def)
    then show ?thesis ..
  qed
  then obtain classifier where c: "tile_classifier_data cfg m classifier" ..
  from write_model_files_entries [OF xml bin_data c js] assms
  have "arch = model_entries xml bin_data classifier js" by simp
  with xml bin_data c js show ?thesis by blast
qed

lemma deploy_prepare_frame:
  "model (fst (deploy_prepare ext self labels)) = model self \<and>
   tile_classifier_data (config (fst (deploy_prepare ext self labels))) m classifier =
     tile_classifier_data (config self) m classifier"
  by (simp add: deploy_prepare_def Let_def tile_classifier_data_def
      split: option.splits)

lemma deploy_prepare_parameters:
  "type_of_model (snd (deploy_prepare ext self labels)) =
     model_name ext (inferencer_model (inferencer self)) \<and>
   converter_type (snd (deploy_prepare ext self labels)) =
     str_TaskType ext (task_type self) \<and>
   model_parameters (snd (deploy_prepare ext self labels)) =
     (configuration (inferencer self))(''labels'' \<mapsto> labels) \<and>
   (deploy_tiling_parameters (snd (deploy_prepare ext self labels)))
     \<lparr>tiling_type := tiling_type (tiling_parameters (config self))\<rparr> =
     tiling_parameters (config self)"
  by (simp add: deploy_prepare_def Let_def split: option.splits)

lemma deploy_unfold:
  assumes "LabelSchemaMapper_forward ext (label_schema (task_environment self)) = Inr labels"
  shows "deploy ext self output_model =
     (case model self of
        None \<Rightarrow>
          (fst (deploy_prepare ext self labels), output_model,
           Some (ValueError ''Deploy failed, model is None''))
      | Some m \<Rightarrow>
          (case write_archive ext (config (fst (deploy_prepare ext self labels))) m
                  (snd (deploy_prepare ext self labels)) of
             Inl e \<Rightarrow> (fst (deploy_prepare ext self labels), output_model, Some e)
           | Inr arch \<Rightarrow>
               (fst (deploy_prepare ext self labels),
                output_model\<lparr>exportable_code := Some arch\<rparr>, None)))"
proof -
  obtain self' parameters where p: "deploy_prepare ext self labels = (self', parameters)"
    by (cases "deploy_prepare ext self labels")
  from deploy_prepare_frame [of ext self labels] p have "model self' = model self" by simp
  with p assms show ?thesis
    by (simp add: deploy_def split: option.splits sum.splits)
qed

lemma deploy_packages:
  assumes "LabelSchemaMapper_forward ext (label_schema (task_environment self)) = Inr labels"
    and "model self = Some m"
    and "get_data m ''openvino.xml'' = Inr xml"
    and "get_data m ''openvino.bin'' = Inr bin_data"
    and "tile_classifier_data (config self) m classifier"
    and "json_dumps ext (snd (deploy_prepare ext self labels)) = Inr js"
    and "package_files ext = Inr rest"
  shows "deploy ext self output_model =
           (fst (deploy_prepare ext self labels),
            output_model\<lparr>exportable_code :=
              Some (model_entries xml bin_data classifier js @ rest)\<rparr>, None)"
proof -
  from assms(5)
  have "tile_classifier_data (config (fst (deploy_prepare ext self labels))) m classifier"
    by (simp add: deploy_prepare_frame)
  from write_model_files_entries [OF assms(3) assms(4) this assms(6)]
  show ?thesis
    by (simp add: deploy_unfold [OF assms(1)] assms(2) assms(7) write_archive_package)
qed

lemma deploy_done:
  assumes "deploy ext self output_model = (self', output_model', None)"
  shows "\<exists>labels m xml bin_data classifier js rest.
           LabelSchemaMapper_forward ext (label_schema (task_environment self)) = Inr labels \<and>
           model self = Some m \<and>
           get_data m ''openvino.xml'' = Inr xml \<and>
           get_data m ''openvino.bin'' = Inr bin_data \<and>
           tile_classifier_data (config self) m classifier \<and>
           json_dumps ext (snd (deploy_prepare ext self labels)) = Inr js \<and>
           package_files ext = Inr rest \<and>
           output_model' =
             output_model\<lparr>exportable_code :=
               Some (model_entries xml bin_data classifier js @ rest)\<rparr>"
proof -
  from assms obtain labels where
    l: "LabelSchemaMapper_forward ext (label_schema (task_environment self)) = Inr labels"
    by (cases "LabelSchemaMapper_forward ext (label_schema (task_environment self))")
      (simp_all add: deploy_def)
  note unfold = deploy_unfold [OF l]
  let ?cfg = "config (fst (deploy_prepare ext self labels))"
  let ?p = "snd (deploy_prepare ext self labels)"
  from assms obtain m where m: "model self = Some m"
    by (cases "model self") (simp_all add: unfold)
  from assms m obtain arch where
    arch: "write_archive ext ?cfg m ?p = Inr arch"
    and out: "output_model' = output_model\<lparr>exportable_code := Some arch\<rparr>"
    by (cases "write_archive ext ?cfg m ?p") (simp_all add: unfold)
  from arch obtain a where a: "write_model_files ext ?cfg m ?p [] = Inr a"
    by (cases "write_model_files ext ?cfg m ?p []") (simp_all add: write_archive_package)
  from arch a obtain rest where rest: "package_files ext = Inr rest" and ar: "arch = a @ rest"
    by (cases "package_files ext") (auto simp add: write_archive_package)
  from write_model_files_done [OF a] obtain xml bin_data classifier js where
    x: "get_data m ''openvino.xml'' = Inr xml"
    and b: "get_data m ''openvino.bin'' = Inr bin_data"
    and c: "tile_classifier_data ?cfg m classifier"
    and j: "json_dumps ext ?p = Inr js"
    and e: "a = model_entries xml bin_data classifier js"
    by blast
  from c have c': "tile_classifier_data (config self) m classifier"
    by (simp add: deploy_prepare_frame)
  from out ar e have "output_model' =
      output_model\<lparr>exportable_code := Some (model_entries xml bin_data classifier js @ rest)\<rparr>"
    by simp
  with l m x b c' j rest show ?thesis by blast
qed

lemma tile_classifier_entries:
  assumes "tile_classifier_data cfg m classifier"
    and "\<forall>n \<in> fst ` set rest.
           n \<noteq> ''model/tile_classifier.xml'' \<and> n \<noteq> ''model/tile_classifier.bin''"
  shows "(''model/tile_classifier.xml'' \<in>
            fst ` set (model_entries xml bin_data classifier js @ rest) \<longleftrightarrow>
          enable_tiling (tiling_parameters cfg) \<and>
          enable_tile_classifier (tiling_parameters cfg)) \<and>
         (''model/tile_classifier.bin'' \<in>
            fst ` set (model_entries xml bin_data classifier js @ rest) \<longleftrightarrow>
          enable_tiling (tiling_parameters cfg) \<and>
          enable_tile_classifier (tiling_parameters cfg))"
proof (cases classifier)
  case None
  with assms show ?thesis
    by (auto simp add: model_entries_def tile_classifier_data_def)
next
  case (Some c)
  obtain cxml cbin where "c = (cxml, cbin)" by (cases c)
  with Some assms(1) show ?thesis
    by (simp add: model_entries_def tile_classifier_data_def)
qed


text \<open>
  C4. Once \<open>LabelSchemaMapper.forward\<close> has returned the labels, \<open>deploy\<close> raises
  \<open>ValueError\<close> when the task has no model, and leaves \<open>output_model\<close> as it was. When
  \<open>deploy\<close> returns, \<open>output_model.exportable_code\<close> is an archive that begins with the
  entries \<open>model/model.xml\<close> and \<open>model/model.bin\<close> holding the model's \<open>openvino.xml\<close>
  and \<open>openvino.bin\<close>, then \<open>model/tile_classifier.xml\<close> and \<open>model/tile_classifier.bin\<close>
  holding the model's tile classifier exactly when \<open>enable_tiling\<close> and
  \<open>enable_tile_classifier\<close> are both set, then \<open>model/config.json\<close> holding the
  serialised parameters: the name of the model wrapper, the task type as converter
  type, the inferencer's configuration with the labels, and the tiling parameters (with
  their \<open>type\<close> as a string). The files of the Python package follow; when none of them
  is archived under a name of the tile classifier, the archive has an entry of that
  name exactly when both flags are set. Conversely, \<open>deploy\<close> returns with this archive
  whenever the model has the data, the parameters can be serialised and the package
  files can be read.
\<close>

theorem deploy_zip_packaging:
  "(\<forall>labels.
      model self = None \<and>
      LabelSchemaMapper_forward ext (label_schema (task_environment self)) = Inr labels \<longrightarrow>
      deploy ext self output_model =
        (fst (deploy_prepare ext self labels), output_model,
         Some (ValueError ''Deploy failed, model is None''))) \<and>
   (\<forall>self' output_model'.
      deploy ext self output_model = (self', output_model', None) \<longrightarrow>
      (\<exists>labels m xml bin_data classifier parameters js rest.
         LabelSchemaMapper_forward ext (label_schema (task_environment self)) = Inr labels \<and>
         model self = Some m \<and>
         get_data m ''openvino.xml'' = Inr xml \<and>
         get_data m ''openvino.bin'' = Inr bin_data \<and>
         tile_classifier_data (config self) m classifier \<and>
         parameters = snd (deploy_prepare ext self labels) \<and>
         type_of_model parameters = model_name ext (inferencer_model (inferencer self)) \<and>
         converter_type parameters = str_TaskType ext (task_type self) \<and>
         model_parameters parameters =
           (configuration (inferencer self))(''labels'' \<mapsto> labels) \<and>
         (deploy_tiling_parameters parameters)
           \<lparr>tiling_type := tiling_type (tiling_parameters (config self))\<rparr> =
           tiling_parameters (config self) \<and>
         json_dumps ext parameters = Inr js \<and>
         package_files ext = Inr rest \<and>
         output_model' =
           output_model\<lparr>exportable_code :=
             Some (model_entries xml bin_data classifier js @ rest)\<rparr> \<and>
         ((\<forall>n \<in> fst ` set rest.
             n \<noteq> ''model/tile_classifier.xml'' \<and> n \<noteq> ''model/tile_classifier.bin'') \<longrightarrow>
          (''model/tile_classifier.xml'' \<in>
             fst ` set (model_entries xml bin_data classifier js @ rest) \<longleftrightarrow>
           enable_tiling (tiling_parameters (config self)) \<and>
           enable_tile_classifier (tiling_parameters (config self))) \<and>
          (''model/tile_classifier.bin'' \<in>
             fst ` set (model_entries xml bin_data classifier js @ rest) \<longleftrightarrow>
           enable_tiling (tiling_parameters (config self)) \<and>
           enable_tile_classifier (tiling_parameters (config self)))))) \<and>
   (\<forall>labels m xml bin_data classifier js rest.
      LabelSchemaMapper_forward ext (label_schema (task_environment self)) = Inr labels \<and>
      model self = Some m \<and>
      get_data m ''openvino.xml'' = Inr xml \<and>
      get_data m ''openvino.bin'' = Inr bin_data \<and>
      tile_classifier_data (config self) m classifier \<and>
      json_dumps ext (snd (deploy_prepare ext self labels)) = Inr js \<and>
      package_files ext = Inr rest \<longrightarrow>
      deploy ext self output_model =
        (fst (deploy_prepare ext self labels),
         output_model\<lparr>exportable_code :=
           Some (model_entries xml bin_data classifier js @ rest)\<rparr>, None))"
proof (intro conjI allI impI)
  fix labels
  assume "model self = None \<and>
      LabelSchemaMapper_forward ext (label_schema (task_environment self)) = Inr labels"
  then show "deploy ext self output_model =
        (fst (deploy_prepare ext self labels), output_model,
         Some (ValueError ''Deploy failed, model is None''))"
    by (simp add: deploy_unfold)
next
  fix self' output_model'
  assume "deploy ext self output_model = (self', output_model', None)"
  from deploy_done [OF this] obtain labels m xml bin_data classifier js rest where
    l: "LabelSchemaMapper_forward ext (label_schema (task_environment self)) = Inr labels"
    and m: "model self = Some m"
    and x: "get_data m ''openvino.xml'' = Inr xml"
    and b: "get_data m ''openvino.bin'' = Inr bin_data"
    and c: "tile_classifier_data (config self) m classifier"
    and j: "json_dumps ext (snd (deploy_prepare ext self labels)) = Inr js"
    and r: "package_files ext = Inr rest"
    and out: "output_model' =
      output_model\<lparr>exportable_code := Some (model_entries xml bin_data classifier js @ rest)\<rparr>"
    by blast
  note p = deploy_prepare_parameters [of ext self labels]
  note p1 = p [THEN conjunct1]
  note p2 = p [THEN conjunct2, THEN conjunct1]
  note p3 = p [THEN conjunct2, THEN conjunct2, THEN conjunct1]
  note p4 = p [THEN conjunct2, THEN conjunct2, THEN conjunct2]
  have t: "(\<forall>n \<in> fst ` set rest.
             n \<noteq> ''model/tile_classifier.xml'' \<and> n \<noteq> ''model/tile_classifier.bin'') \<longrightarrow>
          (''model/tile_classifier.xml'' \<in>
             fst ` set (model_entries xml bin_data classifier js @ rest) \<longleftrightarrow>
           enable_tiling (tiling_parameters (config self)) \<and>
           enable_tile_classifier (tiling_parameters (config self))) \<and>
          (''model/tile_classifier.bin'' \<in>
             fst ` set (model_entries xml bin_data classifier js @ rest) \<longleftrightarrow>
           enable_tiling (tiling_parameters (config self)) \<and>
           enable_tile_classifier (tiling_parameters (config self)))"
  proof (rule impI)
    assume "\<forall>n \<in> fst ` set rest.
             n \<noteq> ''model/tile_classifier.xml'' \<and> n \<noteq> ''model/tile_classifier.bin''"
    with c show "(''model/tile_classifier.xml'' \<in>
             fst ` set (model_entries xml bin_data classifier js @ rest) \<longleftrightarrow>
           enable_tiling (tiling_parameters (config self)) \<and>
           enable_tile_classifier (tiling_parameters (config self))) \<and>
          (''model/tile_classifier.bin'' \<in>
             fst ` set (model_entries xml bin_data classifier js @ rest) \<longleftrightarrow>
           enable_tiling (tiling_parameters (config self)) \<and>
           enable_tile_classifier (tiling_parameters (config self)))"
      by (rule tile_classifier_entries)
  qed
  show "\<exists>labels m xml bin_data classifier parameters js rest.
         LabelSchemaMapper_forward ext (label_schema (task_environment self)) = Inr labels \<and>
         model self = Some m \<and>
         get_data m ''openvino.xml'' = Inr xml \<and>
         get_data m ''openvino.bin'' = Inr bin_data \<and>
         tile_classifier_data (config self) m classifier \<and>
         parameters = snd (deploy_prepare ext self labels) \<and>
         type_of_model parameters = model_name ext (inferencer_model (inferencer self)) \<and>
         converter_type parameters = str_TaskType ext (task_type self) \<and>
         model_parameters parameters =
           (configuration (inferencer self))(''labels'' \<mapsto> labels) \<and>
         (deploy_tiling_parameters parameters)
           \<lparr>tiling_type := tiling_type (tiling_parameters (config self))\<rparr> =
           tiling_parameters (config self) \<and>
         json_dumps ext parameters = Inr js \<and>
         package_files ext = Inr rest \<and>
         output_model' =
           output_model\<lparr>exportable_code :=
             Some (model_entries xml bin_data classifier js @ rest)\<rparr> \<and>
         ((\<forall>n \<in> fst ` set rest.
             n \<noteq> ''model/tile_classifier.xml'' \<and> n \<noteq> ''model/tile_classifier.bin'') \<longrightarrow>
          (''model/tile_classifier.xml'' \<in>
             fst ` set (model_entries xml bin_data classifier js @ rest) \<longleftrightarrow>
           enable_tiling (tiling_parameters (config self)) \<and>
           enable_tile_classifier (tiling_parameters (config self))) \<and>
          (''model/tile_classifier.bin'' \<in>
             fst ` set (model_entries xml bin_data classifier js @ rest) \<longleftrightarrow>
           enable_tiling (tiling_parameters (config self)) \<and>
           enable_tile_classifier (tiling_parameters (config self))))"
    apply (rule exI [of _ labels], rule exI [of _ m], rule exI [of _ xml])
    apply (rule exI [of _ bin_data], rule exI [of _ classifier])
    apply (rule exI [of _ "snd (deploy_prepare ext self labels)"])
    apply (rule exI [of _ js], rule exI [of _ rest])
    apply (rule conjI, rule l)
    apply (rule conjI, rule m)
    apply (rule conjI, rule x)
    apply (rule conjI, rule b)
    apply (rule conjI, rule c)
    apply (rule conjI, rule refl)
    apply (rule conjI, rule p1)
    apply (rule conjI, rule p2)
    apply (rule conjI, rule p3)
    apply (rule conjI, rule p4)
    apply (rule conjI, rule j)
    apply (rule conjI, rule r)
    apply (rule conjI, rule out)
    apply (rule t)
    done
next
  fix labels m xml bin_data classifier js rest
  assume "LabelSchemaMapper_forward ext (label_schema (task_environment self)) = Inr labels \<and>
      model self = Some m \<and>
      get_data m ''openvino.xml'' = Inr xml \<and>
      get_data m ''openvino.bin'' = Inr bin_data \<and>
      tile_classifier_data (config self) m classifier \<and>
      json_dumps ext (snd (deploy_prepare ext self labels)) = Inr js \<and>
      package_files ext = Inr rest"
  then show "deploy ext self output_model =
        (fst (deploy_prepare ext self labels),
         output_model\<lparr>exportable_code :=
           Some (model_entries xml bin_data classifier js @ rest)\<rparr>, None)"
    by (simp add: deploy_packages)
qed

lemma demo_package_files:
  "package_files demo_ext =
     Inr [(''python/model_wrappers/openvino_models.py'', ''wrappers''),
          (''python/requirements.txt'', ''openvino''),
          (''python/LICENSE'', ''Apache-2.0''),
          (''python/README.md'', ''readme''),
          (''python/demo.py'', ''main'')]"
  by (simp add: package_files_def demo_ext_def demo_files_def os_path_join_def
      split_item1_def zip_write_def Let_def)

lemma demo_json:
  "json_dumps demo_ext (snd (deploy_prepare demo_ext demo_task ''schema'')) =
     Inr ''OTX_MaskRCNN INSTANCE_SEGMENTATION'' \<and>
   json_dumps demo_ext (snd (deploy_prepare demo_ext demo_plain_task ''schema'')) =
     Inr ''OTX_MaskRCNN INSTANCE_SEGMENTATION''"
  by (simp add: deploy_prepare_def demo_ext_def demo_task_def demo_plain_task_def
      demo_inferencer_def Let_def split: option.splits)

theorem deploy_zip_packaging_witness:
  "snd (deploy demo_ext demo_task demo_output_model) =
     (demo_output_model\<lparr>exportable_code :=
        Some [(''model/model.xml'', ''xml''), (''model/model.bin'', ''bin''),
              (''model/tile_classifier.xml'', ''cxml''),
              (''model/tile_classifier.bin'', ''cbin''),
              (''model/config.json'', ''OTX_MaskRCNN INSTANCE_SEGMENTATION''),
              (''python/model_wrappers/openvino_models.py'', ''wrappers''),
              (''python/requirements.txt'', ''openvino''),
              (''python/LICENSE'', ''Apache-2.0''),
              (''python/README.md'', ''readme''),
              (''python/demo.py'', ''main'')]\<rparr>, None) \<and>
   snd (deploy demo_ext demo_plain_task demo_output_model) =
     (demo_output_model\<lparr>exportable_code :=
        Some [(''model/model.xml'', ''xml''), (''model/model.bin'', ''bin''),
              (''model/config.json'', ''OTX_MaskRCNN INSTANCE_SEGMENTATION''),
              (''python/model_wrappers/openvino_models.py'', ''wrappers''),
              (''python/requirements.txt'', ''openvino''),
              (''python/LICENSE'', ''Apache-2.0''),
              (''python/README.md'', ''readme''),
              (''python/demo.py'', ''main'')]\<rparr>, None) \<and>
   snd (deploy demo_ext (demo_task\<lparr>model := None\<rparr>) demo_output_model) =
     (demo_output_model, Some (ValueError ''Deploy failed, model is None''))"
proof -
  let ?rest = "[(''python/model_wrappers/openvino_models.py'', ''wrappers''),
          (''python/requirements.txt'', ''openvino''),
          (''python/LICENSE'', ''Apache-2.0''),
          (''python/README.md'', ''readme''),
          (''python/demo.py'', ''main'')]"
  let ?js = "''OTX_MaskRCNN INSTANCE_SEGMENTATION''"
  have d: "get_data demo_model ''openvino.xml'' = Inr ''xml'' \<and>
      get_data demo_model ''openvino.bin'' = Inr ''bin''"
    by (simp add: get_data_def demo_model_def)
  have t1: "tile_classifier_data (config demo_task) demo_model (Some (''cxml'', ''cbin''))"
    by (simp add: tile_classifier_data_def demo_task_def demo_tiling_def get_data_def
        demo_model_def)
  have t2: "tile_classifier_data (config demo_plain_task) demo_model None"
    by (simp add: tile_classifier_data_def demo_plain_task_def demo_task_def demo_tiling_def)
  have h1: "LabelSchemaMapper_forward demo_ext (label_schema (task_environment demo_task)) =
        Inr ''schema'' \<and>
      model demo_task = Some demo_model \<and>
      get_data demo_model ''openvino.xml'' = Inr ''xml'' \<and>
      get_data demo_model ''openvino.bin'' = Inr ''bin'' \<and>
      tile_classifier_data (config demo_task) demo_model (Some (''cxml'', ''cbin'')) \<and>
      json_dumps demo_ext (snd (deploy_prepare demo_ext demo_task ''schema'')) = Inr ?js \<and>
      package_files demo_ext = Inr ?rest"
    using d t1 demo_json demo_package_files by (simp add: demo_task_def demo_ext_def)
  have h2: "LabelSchemaMapper_forward demo_ext
        (label_schema (task_environment demo_plain_task)) = Inr ''schema'' \<and>
      model demo_plain_task = Some demo_model \<and>
      get_data demo_model ''openvino.xml'' = Inr ''xml'' \<and>
      get_data demo_model ''openvino.bin'' = Inr ''bin'' \<and>
      tile_classifier_data (config demo_plain_task) demo_model None \<and>
      json_dumps demo_ext (snd (deploy_prepare demo_ext demo_plain_task ''schema'')) =
        Inr ?js \<and>
      package_files demo_ext = Inr ?rest"
    using d t2 demo_json demo_package_files
    by (simp add: demo_plain_task_def demo_task_def demo_ext_def)
  have h3: "model (demo_task\<lparr>model := None\<rparr>) = None \<and>
      LabelSchemaMapper_forward demo_ext
        (label_schema (task_environment (demo_task\<lparr>model := None\<rparr>))) = Inr ''schema''"
    by (simp add: demo_task_def demo_ext_def)
  have a: "snd (deploy demo_ext demo_task demo_output_model) =
      (demo_output_model\<lparr>exportable_code :=
         Some (model_entries ''xml'' ''bin'' (Some (''cxml'', ''cbin'')) ?js @ ?rest)\<rparr>, None)"
    using deploy_zip_packaging [of demo_task demo_ext demo_output_model,
        THEN conjunct2, THEN conjunct2, rule_format, OF h1]
    by simp
  have b: "snd (deploy demo_ext demo_plain_task demo_output_model) =
      (demo_output_model\<lparr>exportable_code :=
         Some (model_entries ''xml'' ''bin'' None ?js @ ?rest)\<rparr>, None)"
    using deploy_zip_packaging [of demo_plain_task demo_ext demo_output_model,
        THEN conjunct2, THEN conjunct2, rule_format, OF h2]
    by simp
  have c: "snd (deploy demo_ext (demo_task\<lparr>model := None\<rparr>) demo_output_model) =
     (demo_output_model, Some (ValueError ''Deploy failed, model is None''))"
    using deploy_zip_packaging [of "demo_task\<lparr>model := None\<rparr>" demo_ext demo_output_model,
        THEN conjunct1, rule_format, OF h3]
    by simp
  from a b c show ?thesis by (simp add: model_entries_def)
qed
end
